theory Spec2Isabelle
  imports Complex_Main "HOL-Library.AList"
begin

section \<open>Resource allocation engine of the inventory management system\<close>

text \<open>
  A shallow embedding of \<^verbatim>\<open>src/optimization/resource_allocator.py\<close> (class
  \<^verbatim>\<open>ResourceAllocator\<close>), of the session context manager of
  \<^verbatim>\<open>src/database/connection.py\<close> and of the tables of
  \<^verbatim>\<open>src/database/models.py\<close> that the allocator reads and writes.

  Conventions of the embedding:
  \<^item> Python \<^verbatim>\<open>int\<close> is \<open>int\<close>; Python \<^verbatim>\<open>float\<close> (the \<^verbatim>\<open>Float\<close> columns, the
    values read back from the solver, the constants 0.1, 0.8, 0.6 and 0.9) is \<open>rat\<close>,
    that is, arithmetic is exact;
  \<^item> a \<^verbatim>\<open>dict\<close> is an association list in insertion order, written with
    \<open>AList.update\<close> (a second write to a key replaces the value in place, as in Python)
    and read with \<open>map_of\<close>;
  \<^item> a column has its declared SQL type (no \<^verbatim>\<open>NULL\<close>);
  \<^item> \<^verbatim>\<open>datetime.utcnow()\<close> is one parameter \<open>now\<close>, in seconds; wall-clock
    measurements (\<^verbatim>\<open>execution_time\<close>) are left out of rows and results;
  \<^item> the LP solver (PuLP with CBC) is a parameter of the model: a function from the
    problem built by the code to a status and a value for every variable;
  \<^item> failures of the persistence layer are a parameter too (\<open>faults\<close>), so that every
    \<^verbatim>\<open>except\<close> branch of the source is a branch of the model;
  \<^item> a private method \<^verbatim>\<open>_name\<close> of the source is the constant \<open>name\<close> here, and
    fields of two classes with the same name carry a prefix.
\<close>

subsection \<open>Python helpers\<close>

text \<open>\<^verbatim>\<open>int(x)\<close> on a float truncates towards zero.\<close>

definition py_int :: "rat \<Rightarrow> int" where
  "py_int x = (if 0 \<le> x then \<lfloor>x\<rfloor> else \<lceil>x\<rceil>)"

text \<open>\<^verbatim>\<open>str(n)\<close> on an integer: decimal digits, with a minus sign when negative.\<close>

fun str_nat :: "nat \<Rightarrow> string" where
  "str_nat n =
     (if n < 10 then [char_of (48 + n)]
      else str_nat (n div 10) @ [char_of (48 + n mod 10)])"

definition str :: "int \<Rightarrow> string" where
  "str i = (if i < 0 then CHR ''-'' # str_nat (nat (- i)) else str_nat (nat i))"

subsection \<open>Tables read by the allocator (\<^verbatim>\<open>models.py\<close>)\<close>

record InventoryItem =
  item_id :: int
  item_part_number :: string
  item_current_stock :: int
  item_unit_cost :: rat
  item_reorder_point :: int
  item_is_active :: bool

record ProductionLine =
  line_id :: int
  line_name :: string
  line_capacity_per_hour :: int
  line_efficiency_target :: rat
  line_is_active :: bool

record ProductionRecord =
  rec_production_line_id :: int
  rec_planned_quantity :: int
  rec_actual_quantity :: int
  rec_created_at :: int

subsection \<open>The dictionaries built from the tables\<close>

record inventory_info =
  part_number :: string
  current_stock :: int
  unit_cost :: rat
  reorder_point :: int

record requirement_info =
  name :: string
  capacity_per_hour :: int
  required_items :: "(int \<times> int) list"

record schedule_line_info =
  sl_name :: string
  sl_capacity_per_hour :: int
  sl_efficiency_target :: rat
  setup_cost :: int

record job_info =
  quantity :: int
  priority :: int
  due_date :: int

record line_utilization =
  lu_line_id :: int
  lu_line_name :: string
  current_efficiency :: rat
  target_efficiency :: rat

record item_utilization =
  iu_item_id :: int
  iu_part_number :: string
  iu_current_stock :: int
  turnover_rate :: int

record utilization_data =
  lines :: "line_utilization list"
  inventory :: "item_utilization list"

type_synonym inventory_data = "(int \<times> inventory_info) list"
type_synonym production_data = "(int \<times> requirement_info) list"
type_synonym lines_data = "(int \<times> schedule_line_info) list"
type_synonym jobs_data = "(int \<times> job_info) list"

subsection \<open>Results of the optimizations\<close>

record allocation_entry =
  allocated_quantity :: int
  item_info :: inventory_info
  line_info :: requirement_info

record schedule_entry =
  assigned_line :: int
  assigned_slot :: nat
  sched_job_info :: job_info
  sched_line_info :: schedule_line_info
  scheduled_time :: int

type_synonym allocation_results = "(int \<times> (int \<times> allocation_entry) list) list"
type_synonym schedule_results = "(int \<times> schedule_entry) list"

datatype recommendation =
  Efficiency_improvement int string rat rat rat "string list"
| Inventory_optimization int string int int "string list"

text \<open>
  The dictionary an entry point returns: \<^verbatim>\<open>{'status': 'failed', 'reason': r}\<close>, or
  \<^verbatim>\<open>{'status': 'success', ...}\<close> with the objective value and the payload of the
  entry point.
\<close>

datatype result =
  Failed string
| Allocation_success rat allocation_results
| Schedule_success rat schedule_results
| Utilization_success "recommendation list" utilization_data

subsection \<open>Tables written by the allocator, and the session\<close>

datatype payload =
  Allocation_payload allocation_results
| Schedule_payload schedule_results
| Utilization_payload "recommendation list" nat utilization_data

record OptimizationResult =
  optimization_type :: string
  results :: payload
  objective_value :: rat
  run_status :: string

record ResourceAllocation =
  production_line_id :: int
  resource_type :: string
  resource_id :: string
  ra_allocated_quantity :: int
  allocation_date :: int
  ra_status :: string

datatype row = Run OptimizationResult | Decision ResourceAllocation

record database =
  inventory_items :: "InventoryItem list"
  production_lines :: "ProductionLine list"
  production_records :: "ProductionRecord list"
  written :: "row list"

text \<open>
  A session holds the rows added since the last commit or rollback, and the rows the
  database holds. \<open>commit\<close> is atomic: it writes every pending row, or it raises and
  writes none.
\<close>

record session =
  pending :: "row list"
  committed :: "row list"

datatype fault = NoFault | FailAtAdd nat | FailAtCommit

record faults =
  save_fault :: fault
  apply_fault :: fault
  exit_fault :: bool

datatype py_exception = Exception

text \<open>
  \<open>session_add_all f rows s\<close> is a run of \<^verbatim>\<open>session.add\<close> over \<open>rows\<close>; with the fault
  \<open>FailAtAdd k\<close> the call for row \<open>k\<close> raises, after the rows before it were added.
  The first component says whether an exception was raised.
\<close>

definition session_add_all :: "fault \<Rightarrow> row list \<Rightarrow> session \<Rightarrow> bool \<times> session" where
  "session_add_all f rows s =
     (case f of
        FailAtAdd k \<Rightarrow>
          (if k < length rows then (True, s\<lparr>pending := pending s @ take k rows\<rparr>)
           else (False, s\<lparr>pending := pending s @ rows\<rparr>))
      | _ \<Rightarrow> (False, s\<lparr>pending := pending s @ rows\<rparr>))"

definition session_commit :: "fault \<Rightarrow> session \<Rightarrow> bool \<times> session" where
  "session_commit f s =
     (if f = FailAtCommit then (True, s)
      else (False, s\<lparr>committed := committed s @ pending s, pending := []\<rparr>))"

definition session_rollback :: "session \<Rightarrow> session" where
  "session_rollback s = s\<lparr>pending := []\<rparr>"

subsection \<open>The linear programs and the solver\<close>

text \<open>
  What the code hands to PuLP: variables with a lower bound, an upper bound and an
  integrality flag (\<^verbatim>\<open>cat='Integer'\<close>; \<^verbatim>\<open>cat='Binary'\<close> is an integer in 0..1), an
  objective to minimise and a list of constraints. A linear expression is a list of
  terms, coefficient times variable. An allocation variable is the pair (item, line), a
  schedule variable the triple (job, line, slot).
\<close>

record 'v LpVariable =
  var :: 'v
  lowBound :: "rat option"
  upBound :: "rat option"
  integer :: bool

datatype lp_sense = LE | GE | EQ

type_synonym 'v lin_expr = "(rat \<times> 'v) list"

record 'v LpConstraint =
  lhs :: "'v lin_expr"
  sense :: lp_sense
  rhs :: rat

record 'v LpProblem =
  variables :: "'v LpVariable list"
  objective :: "'v lin_expr"
  constraints :: "'v LpConstraint list"

datatype lp_status =
  LpStatusOptimal | LpStatusNotSolved | LpStatusInfeasible | LpStatusUnbounded
| LpStatusUndefined

record 'v lp_solution =
  status :: lp_status
  value_of :: "'v \<Rightarrow> rat"

type_synonym 'v solver = "'v LpProblem \<Rightarrow> 'v lp_solution"

definition eval_expr :: "('v \<Rightarrow> rat) \<Rightarrow> 'v lin_expr \<Rightarrow> rat" where
  "eval_expr val e = sum_list (map (\<lambda>(c, v). c * val v) e)"

definition var_ok :: "('v \<Rightarrow> rat) \<Rightarrow> 'v LpVariable \<Rightarrow> bool" where
  "var_ok val x =
     ((case lowBound x of None \<Rightarrow> True | Some b \<Rightarrow> b \<le> val (var x)) \<and>
      (case upBound x of None \<Rightarrow> True | Some b \<Rightarrow> val (var x) \<le> b) \<and>
      (if integer x then of_int \<lfloor>val (var x)\<rfloor> = val (var x) else True))"

definition constraint_ok :: "('v \<Rightarrow> rat) \<Rightarrow> 'v LpConstraint \<Rightarrow> bool" where
  "constraint_ok val c =
     (case sense c of
        LE \<Rightarrow> eval_expr val (lhs c) \<le> rhs c
      | GE \<Rightarrow> rhs c \<le> eval_expr val (lhs c)
      | EQ \<Rightarrow> eval_expr val (lhs c) = rhs c)"

definition feasible :: "'v LpProblem \<Rightarrow> ('v \<Rightarrow> rat) \<Rightarrow> bool" where
  "feasible prob val =
     (list_all (var_ok val) (variables prob) \<and>
      list_all (constraint_ok val) (constraints prob))"

definition is_optimal :: "'v LpProblem \<Rightarrow> ('v \<Rightarrow> rat) \<Rightarrow> bool" where
  "is_optimal prob val =
     (feasible prob val \<and>
      (\<forall>val'. feasible prob val' \<longrightarrow>
         eval_expr val (objective prob) \<le> eval_expr val' (objective prob)))"

text \<open>
  The contract of the solver on a problem: when it reports \<open>LpStatusOptimal\<close>, the
  values it returns satisfy the bounds, the integrality and every constraint of the
  problem (\<open>solver_feasible\<close>), and no feasible point has a smaller objective
  (\<open>solver_optimal\<close>).
\<close>

definition solver_feasible :: "'v solver \<Rightarrow> 'v LpProblem \<Rightarrow> bool" where
  "solver_feasible slv prob =
     (if status (slv prob) = LpStatusOptimal then feasible prob (value_of (slv prob))
      else True)"

definition solver_optimal :: "'v solver \<Rightarrow> 'v LpProblem \<Rightarrow> bool" where
  "solver_optimal slv prob =
     (if status (slv prob) = LpStatusOptimal then is_optimal prob (value_of (slv prob))
      else True)"

subsection \<open>Reading the snapshot\<close>

definition days :: "int \<Rightarrow> int" where
  "days n = n * 86400"

definition hours :: "int \<Rightarrow> int" where
  "hours n = n * 3600"

definition get_inventory_data :: "database \<Rightarrow> inventory_data" where
  "get_inventory_data db =
     fold (\<lambda>item inventory_data.
             AList.update (item_id item)
               \<lparr>part_number = item_part_number item,
                current_stock = item_current_stock item,
                unit_cost = item_unit_cost item,
                reorder_point = item_reorder_point item\<rparr> inventory_data)
          (filter item_is_active (inventory_items db)) []"

definition recent_records :: "database \<Rightarrow> int \<Rightarrow> int \<Rightarrow> int \<Rightarrow> ProductionRecord list" where
  "recent_records db now d lid =
     filter (\<lambda>r. rec_production_line_id r = lid \<and> now - days d \<le> rec_created_at r)
       (production_records db)"

definition estimate_required_items :: "ProductionRecord list \<Rightarrow> (int \<times> int) list" where
  "estimate_required_items recs =
     (if recs \<noteq> [] then
        (let avg_production =
               of_int (sum_list (map rec_actual_quantity recs)) / of_nat (length recs)
         in [(1, py_int (avg_production * (8 / 10))), (2, py_int (avg_production * (6 / 10)))])
      else [])"

definition get_production_requirements :: "database \<Rightarrow> int \<Rightarrow> production_data" where
  "get_production_requirements db now =
     fold (\<lambda>line production_data.
             AList.update (line_id line)
               \<lparr>name = line_name line,
                capacity_per_hour = line_capacity_per_hour line,
                required_items =
                  estimate_required_items (recent_records db now 7 (line_id line))\<rparr>
               production_data)
          (filter line_is_active (production_lines db)) []"

definition get_production_lines_data :: "database \<Rightarrow> lines_data" where
  "get_production_lines_data db =
     fold (\<lambda>line lines_data.
             AList.update (line_id line)
               \<lparr>sl_name = line_name line,
                sl_capacity_per_hour = line_capacity_per_hour line,
                sl_efficiency_target = line_efficiency_target line,
                setup_cost = 10\<rparr> lines_data)
          (filter line_is_active (production_lines db)) []"

definition get_pending_jobs_data :: "int \<Rightarrow> jobs_data" where
  "get_pending_jobs_data now =
     [(1, \<lparr>quantity = 100, priority = 1, due_date = now + hours 8\<rparr>),
      (2, \<lparr>quantity = 150, priority = 2, due_date = now + hours 12\<rparr>),
      (3, \<lparr>quantity = 75, priority = 1, due_date = now + hours 6\<rparr>)]"

definition line_current_efficiency :: "ProductionRecord list \<Rightarrow> rat" where
  "line_current_efficiency recs =
     (if recs \<noteq> [] then
        (let total_planned = sum_list (map rec_planned_quantity recs);
             total_actual = sum_list (map rec_actual_quantity recs)
         in if 0 < total_planned then (of_int total_actual / of_int total_planned) * 100
            else 0)
      else 0)"

definition get_resource_utilization_data :: "database \<Rightarrow> int \<Rightarrow> utilization_data" where
  "get_resource_utilization_data db now =
     \<lparr>lines =
        map (\<lambda>line.
               \<lparr>lu_line_id = line_id line,
                lu_line_name = line_name line,
                current_efficiency =
                  line_current_efficiency (recent_records db now 1 (line_id line)),
                target_efficiency = line_efficiency_target line * 100\<rparr>)
            (filter line_is_active (production_lines db)),
      inventory =
        map (\<lambda>item.
               \<lparr>iu_item_id = item_id item,
                iu_part_number = item_part_number item,
                iu_current_stock = item_current_stock item,
                turnover_rate = 4\<rparr>)
            (filter item_is_active (inventory_items db))\<rparr>"

subsection \<open>Persisting a run and its decisions\<close>

text \<open>
  \<^verbatim>\<open>_save_optimization_result\<close>: the row is added and committed inside a
  \<^verbatim>\<open>try\<close>; an exception is logged and nothing else is done. The argument \<open>prob\<close> is
  the value of the objective of the problem, or \<open>None\<close> for the call without a problem.
\<close>

definition save_optimization_result ::
    "fault \<Rightarrow> session \<Rightarrow> string \<Rightarrow> rat option \<Rightarrow> payload \<Rightarrow> session" where
  "save_optimization_result f s opt_type prob res =
     (let optimization_result =
            Run \<lparr>optimization_type = opt_type, results = res,
                 objective_value = (case prob of Some v \<Rightarrow> v | None \<Rightarrow> 0),
                 run_status = ''COMPLETED''\<rparr>
      in case session_add_all f [optimization_result] s of
           (True, s') \<Rightarrow> s'
         | (False, s') \<Rightarrow> snd (session_commit f s'))"

text \<open>
  The body shared by \<^verbatim>\<open>_apply_inventory_allocations\<close> and
  \<^verbatim>\<open>_apply_production_schedule\<close>: every row is added, then one commit; on an
  exception the error is logged, the session is rolled back, and the method returns.
\<close>

definition add_all_then_commit :: "fault \<Rightarrow> session \<Rightarrow> row list \<Rightarrow> session" where
  "add_all_then_commit f s rs =
     (case session_add_all f rs s of
        (True, s') \<Rightarrow> session_rollback s'
      | (False, s') \<Rightarrow>
          (case session_commit f s' of
             (True, s'') \<Rightarrow> session_rollback s''
           | (False, s'') \<Rightarrow> s''))"

definition allocation_rows :: "allocation_results \<Rightarrow> int \<Rightarrow> row list" where
  "allocation_rows allocation_results now =
     [Decision \<lparr>production_line_id = l, resource_type = ''MATERIAL'',
                resource_id = str i, ra_allocated_quantity = allocated_quantity e,
                allocation_date = now, ra_status = ''PLANNED''\<rparr>.
        (i, allocations) \<leftarrow> allocation_results, (l, e) \<leftarrow> allocations]"

definition apply_inventory_allocations ::
    "fault \<Rightarrow> session \<Rightarrow> allocation_results \<Rightarrow> int \<Rightarrow> session" where
  "apply_inventory_allocations f s allocation_results now =
     add_all_then_commit f s (allocation_rows allocation_results now)"

definition schedule_rows :: "schedule_results \<Rightarrow> row list" where
  "schedule_rows schedule_results =
     [Decision \<lparr>production_line_id = assigned_line e, resource_type = ''LABOR'',
                resource_id = ''job_'' @ str j, ra_allocated_quantity = 1,
                allocation_date = scheduled_time e, ra_status = ''PLANNED''\<rparr>.
        (j, e) \<leftarrow> schedule_results]"

definition apply_production_schedule ::
    "fault \<Rightarrow> session \<Rightarrow> schedule_results \<Rightarrow> session" where
  "apply_production_schedule f s schedule_results =
     add_all_then_commit f s (schedule_rows schedule_results)"

text \<open>
  What a call leaves behind: the dictionary it returns or the exception it raises, the
  rows of the written tables, and how often the solver was run.
\<close>

record outcome =
  returned :: "py_exception + result"
  rows :: "row list"
  solver_calls :: nat

text \<open>
  Leaving the \<^verbatim>\<open>with get_db_session()\<close> block (\<^verbatim>\<open>get_session\<close> after its
  \<^verbatim>\<open>yield\<close>): commit; on an exception roll back and raise, which the
  \<^verbatim>\<open>except\<close> of the entry point logs and raises again.
\<close>

definition get_session_exit :: "faults \<Rightarrow> session \<Rightarrow> nat \<Rightarrow> result \<Rightarrow> outcome" where
  "get_session_exit fl s n r =
     (if exit_fault fl then
        \<lparr>returned = Inl Exception, rows = committed (session_rollback s), solver_calls = n\<rparr>
      else
        \<lparr>returned = Inr r, rows = committed (snd (session_commit NoFault s)),
         solver_calls = n\<rparr>)"

definition get_session :: "database \<Rightarrow> session" where
  "get_session db = \<lparr>pending = [], committed = written db\<rparr>"

subsection \<open>Inventory allocation\<close>

definition allocation_vars ::
    "inventory_data \<Rightarrow> production_data \<Rightarrow> (int \<times> int) LpVariable list" where
  "allocation_vars inventory_data production_data =
     [\<lparr>var = (i, l), lowBound = Some 0, upBound = None, integer = True\<rparr>.
        i \<leftarrow> map fst inventory_data, l \<leftarrow> map fst production_data]"

definition allocation_objective ::
    "inventory_data \<Rightarrow> production_data \<Rightarrow> (int \<times> int) lin_expr" where
  "allocation_objective inventory_data production_data =
     concat [[(unit_cost info, (i, l)), ((1 / 10) * unit_cost info, (i, l))].
               (i, info) \<leftarrow> inventory_data, l \<leftarrow> map fst production_data]"

definition stock_constraints ::
    "inventory_data \<Rightarrow> production_data \<Rightarrow> (int \<times> int) LpConstraint list" where
  "stock_constraints inventory_data production_data =
     [\<lparr>lhs = [(1, (i, l)). l \<leftarrow> map fst production_data], sense = LE,
       rhs = of_int (current_stock info)\<rparr>.
        (i, info) \<leftarrow> inventory_data]"

definition requirement_constraints ::
    "inventory_data \<Rightarrow> production_data \<Rightarrow> (int \<times> int) LpConstraint list" where
  "requirement_constraints inventory_data production_data =
     [\<lparr>lhs = [(1, (i, l))], sense = GE, rhs = of_int min_required\<rparr>.
        (l, pinfo) \<leftarrow> production_data, (i, min_required) \<leftarrow> required_items pinfo,
        i \<in> set (map fst inventory_data)]"

definition inventory_allocation_problem ::
    "inventory_data \<Rightarrow> production_data \<Rightarrow> (int \<times> int) LpProblem" where
  "inventory_allocation_problem inventory_data production_data =
     \<lparr>variables = allocation_vars inventory_data production_data,
      objective = allocation_objective inventory_data production_data,
      constraints = stock_constraints inventory_data production_data @
                    requirement_constraints inventory_data production_data\<rparr>"

definition extract_allocation_results ::
    "(int \<times> int \<Rightarrow> rat) \<Rightarrow> inventory_data \<Rightarrow> production_data \<Rightarrow> allocation_results" where
  "extract_allocation_results val inventory_data production_data =
     [(i, [(l, \<lparr>allocated_quantity = py_int (val (i, l)), item_info = info,
                 line_info = pinfo\<rparr>).
              (l, pinfo) \<leftarrow> production_data, 0 < val (i, l)]).
        (i, info) \<leftarrow> inventory_data]"

definition optimize_inventory_allocation ::
    "(int \<times> int) solver \<Rightarrow> faults \<Rightarrow> database \<Rightarrow> int \<Rightarrow> outcome" where
  "optimize_inventory_allocation slv fl db now =
     (let s = get_session db;
          inventory_data = get_inventory_data db;
          production_data = get_production_requirements db now
      in if inventory_data = [] \<or> production_data = [] then
           get_session_exit fl s 0 (Failed ''insufficient_data'')
         else
           (let prob = inventory_allocation_problem inventory_data production_data;
                sol = slv prob
            in if status sol = LpStatusOptimal then
                 (let allocation_results =
                        extract_allocation_results (value_of sol) inventory_data
                          production_data;
                      obj = eval_expr (value_of sol) (objective prob);
                      s1 = save_optimization_result (save_fault fl) s ''INVENTORY''
                             (Some obj) (Allocation_payload allocation_results);
                      s2 = apply_inventory_allocations (apply_fault fl) s1
                             allocation_results now
                  in get_session_exit fl s2 1 (Allocation_success obj allocation_results))
               else get_session_exit fl s 1 (Failed ''no_optimal_solution'')))"

subsection \<open>Production schedule\<close>

definition time_slots :: "nat list" where
  "time_slots = [0..<24]"

definition schedule_vars ::
    "jobs_data \<Rightarrow> lines_data \<Rightarrow> (int \<times> int \<times> nat) LpVariable list" where
  "schedule_vars jobs_data lines_data =
     [\<lparr>var = (j, l, slot), lowBound = Some 0, upBound = Some 1, integer = True\<rparr>.
        j \<leftarrow> map fst jobs_data, l \<leftarrow> map fst lines_data, slot \<leftarrow> time_slots]"

definition schedule_objective ::
    "jobs_data \<Rightarrow> lines_data \<Rightarrow> (int \<times> int \<times> nat) lin_expr" where
  "schedule_objective jobs_data lines_data =
     [(of_int (int slot * (2 - priority jinfo) + setup_cost linfo), (j, l, slot)).
        (j, jinfo) \<leftarrow> jobs_data, (l, linfo) \<leftarrow> lines_data, slot \<leftarrow> time_slots]"

definition assignment_constraints ::
    "jobs_data \<Rightarrow> lines_data \<Rightarrow> (int \<times> int \<times> nat) LpConstraint list" where
  "assignment_constraints jobs_data lines_data =
     [\<lparr>lhs = [(1, (j, l, slot)). l \<leftarrow> map fst lines_data, slot \<leftarrow> time_slots],
       sense = EQ, rhs = 1\<rparr>.
        j \<leftarrow> map fst jobs_data]"

definition slot_constraints ::
    "jobs_data \<Rightarrow> lines_data \<Rightarrow> (int \<times> int \<times> nat) LpConstraint list" where
  "slot_constraints jobs_data lines_data =
     [\<lparr>lhs = [(1, (j, l, slot)). j \<leftarrow> map fst jobs_data], sense = LE, rhs = 1\<rparr>.
        l \<leftarrow> map fst lines_data, slot \<leftarrow> time_slots]"

definition capacity_constraints ::
    "jobs_data \<Rightarrow> lines_data \<Rightarrow> (int \<times> int \<times> nat) LpConstraint list" where
  "capacity_constraints jobs_data lines_data =
     [\<lparr>lhs = [(of_int (quantity jinfo), (j, l, slot)). (j, jinfo) \<leftarrow> jobs_data],
       sense = LE, rhs = of_int (sl_capacity_per_hour linfo)\<rparr>.
        (l, linfo) \<leftarrow> lines_data, slot \<leftarrow> time_slots]"

definition production_schedule_problem ::
    "jobs_data \<Rightarrow> lines_data \<Rightarrow> (int \<times> int \<times> nat) LpProblem" where
  "production_schedule_problem jobs_data lines_data =
     \<lparr>variables = schedule_vars jobs_data lines_data,
      objective = schedule_objective jobs_data lines_data,
      constraints = assignment_constraints jobs_data lines_data @
                    slot_constraints jobs_data lines_data @
                    capacity_constraints jobs_data lines_data\<rparr>"

text \<open>
  \<^verbatim>\<open>_extract_schedule_results\<close>: for a job, each line is searched for its first slot
  whose variable has the value 1 (the \<^verbatim>\<open>break\<close> leaves the loop over the slots
  only), and each hit overwrites \<^verbatim>\<open>results[job_id]\<close>: the hit of the last line stays.
\<close>

definition job_hits ::
    "(int \<times> int \<times> nat \<Rightarrow> rat) \<Rightarrow> lines_data \<Rightarrow> int \<Rightarrow> (int \<times> schedule_line_info \<times> nat) list"
  where
  "job_hits val lines_data j =
     concat (map (\<lambda>(l, linfo).
                    case find (\<lambda>slot. val (j, l, slot) = 1) time_slots of
                      None \<Rightarrow> []
                    | Some slot \<Rightarrow> [(l, linfo, slot)]) lines_data)"

definition extract_schedule_results ::
    "(int \<times> int \<times> nat \<Rightarrow> rat) \<Rightarrow> jobs_data \<Rightarrow> lines_data \<Rightarrow> int \<Rightarrow> schedule_results" where
  "extract_schedule_results val jobs_data lines_data now =
     concat (map (\<lambda>(j, jinfo).
                    case job_hits val lines_data j of
                      [] \<Rightarrow> []
                    | h # hs \<Rightarrow>
                        (case last (h # hs) of
                           (l, linfo, slot) \<Rightarrow>
                             [(j, \<lparr>assigned_line = l, assigned_slot = slot,
                                   sched_job_info = jinfo, sched_line_info = linfo,
                                   scheduled_time = now + hours (int slot)\<rparr>)]))
                 jobs_data)"

definition optimize_production_schedule ::
    "(int \<times> int \<times> nat) solver \<Rightarrow> faults \<Rightarrow> database \<Rightarrow> int \<Rightarrow> outcome" where
  "optimize_production_schedule slv fl db now =
     (let s = get_session db;
          lines_data = get_production_lines_data db;
          jobs_data = get_pending_jobs_data now
      in if lines_data = [] \<or> jobs_data = [] then
           get_session_exit fl s 0 (Failed ''insufficient_data'')
         else
           (let prob = production_schedule_problem jobs_data lines_data;
                sol = slv prob
            in if status sol = LpStatusOptimal then
                 (let schedule_results =
                        extract_schedule_results (value_of sol) jobs_data lines_data now;
                      obj = eval_expr (value_of sol) (objective prob);
                      s1 = save_optimization_result (save_fault fl) s ''PRODUCTION''
                             (Some obj) (Schedule_payload schedule_results);
                      s2 = apply_production_schedule (apply_fault fl) s1 schedule_results
                  in get_session_exit fl s2 1 (Schedule_success obj schedule_results))
               else get_session_exit fl s 1 (Failed ''no_optimal_solution'')))"

subsection \<open>Resource utilization\<close>

definition efficiency_recommendation :: "line_utilization \<Rightarrow> recommendation" where
  "efficiency_recommendation line_data =
     Efficiency_improvement (lu_line_id line_data) (lu_line_name line_data)
       (current_efficiency line_data) (target_efficiency line_data)
       (target_efficiency line_data - current_efficiency line_data)
       [''Review maintenance schedule'', ''Optimize material flow'',
        ''Training for operators'']"

definition inventory_recommendation :: "item_utilization \<Rightarrow> recommendation" where
  "inventory_recommendation item_data =
     Inventory_optimization (iu_item_id item_data) (iu_part_number item_data)
       (iu_current_stock item_data) (turnover_rate item_data)
       [''Reduce stock levels'', ''Review reorder points'',
        ''Consider just-in-time delivery'']"

definition utilization_recommendations :: "utilization_data \<Rightarrow> recommendation list" where
  "utilization_recommendations utilization_data =
     [efficiency_recommendation line_data.
        line_data \<leftarrow> lines utilization_data,
        current_efficiency line_data < target_efficiency line_data * (9 / 10)] @
     [inventory_recommendation item_data.
        item_data \<leftarrow> inventory utilization_data, turnover_rate item_data < 4]"

text \<open>
  The test \<^verbatim>\<open>if not utilization_data\<close> of the source is on a dictionary with the two
  keys \<^verbatim>\<open>lines\<close> and \<^verbatim>\<open>inventory\<close>, which is never empty: the branch returning
  \<^verbatim>\<open>no_data\<close> is not reached.
\<close>

definition optimize_resource_utilization :: "faults \<Rightarrow> database \<Rightarrow> int \<Rightarrow> outcome" where
  "optimize_resource_utilization fl db now =
     (let s = get_session db;
          utilization_data = get_resource_utilization_data db now;
          recommendations = utilization_recommendations utilization_data;
          s1 = save_optimization_result (save_fault fl) s ''RESOURCE'' None
                 (Utilization_payload recommendations (length recommendations)
                    utilization_data)
      in get_session_exit fl s1 0 (Utilization_success recommendations utilization_data))"

subsection \<open>Observations on problems, results and rows\<close>

text \<open>The problems an entry point builds from the database, and what it extracts.\<close>

definition current_allocation_problem :: "database \<Rightarrow> int \<Rightarrow> (int \<times> int) LpProblem" where
  "current_allocation_problem db now =
     inventory_allocation_problem (get_inventory_data db) (get_production_requirements db now)"

definition current_schedule_problem :: "database \<Rightarrow> int \<Rightarrow> (int \<times> int \<times> nat) LpProblem" where
  "current_schedule_problem db now =
     production_schedule_problem (get_pending_jobs_data now) (get_production_lines_data db)"

definition solved_allocations ::
    "(int \<times> int) solver \<Rightarrow> database \<Rightarrow> int \<Rightarrow> allocation_results" where
  "solved_allocations slv db now =
     extract_allocation_results (value_of (slv (current_allocation_problem db now)))
       (get_inventory_data db) (get_production_requirements db now)"

definition solved_schedule ::
    "(int \<times> int \<times> nat) solver \<Rightarrow> database \<Rightarrow> int \<Rightarrow> schedule_results" where
  "solved_schedule slv db now =
     extract_schedule_results (value_of (slv (current_schedule_problem db now)))
       (get_pending_jobs_data now) (get_production_lines_data db) now"

definition solved_objective :: "'v solver \<Rightarrow> 'v LpProblem \<Rightarrow> rat" where
  "solved_objective slv prob = eval_expr (value_of (slv prob)) (objective prob)"

text \<open>
  \<^verbatim>\<open>allocations[item][line]['allocated_quantity']\<close>, read as 0 where the result has no
  entry, and its sum over the lines of an item.
\<close>

definition allocated :: "allocation_results \<Rightarrow> int \<Rightarrow> int \<Rightarrow> int" where
  "allocated res i l =
     (case map_of res i of
        None \<Rightarrow> 0
      | Some allocations \<Rightarrow>
          (case map_of allocations l of None \<Rightarrow> 0 | Some e \<Rightarrow> allocated_quantity e))"

definition total_allocated :: "allocation_results \<Rightarrow> int \<Rightarrow> int" where
  "total_allocated res i =
     (case map_of res i of
        None \<Rightarrow> 0
      | Some allocations \<Rightarrow> sum_list (map (\<lambda>(l, e). allocated_quantity e) allocations))"

fun is_decision :: "row \<Rightarrow> bool" where
  "is_decision (Decision d) = True"
| "is_decision (Run r) = False"

fun is_inventory_optimization :: "recommendation \<Rightarrow> bool" where
  "is_inventory_optimization (Inventory_optimization i p c t a) = True"
| "is_inventory_optimization (Efficiency_improvement i n c t p a) = False"

text \<open>Whether a fault makes the run of adds and the commit over the rows raise.\<close>

definition fault_raises :: "fault \<Rightarrow> row list \<Rightarrow> bool" where
  "fault_raises f rs =
     (case f of NoFault \<Rightarrow> False | FailAtAdd k \<Rightarrow> k < length rs | FailAtCommit \<Rightarrow> True)"

text \<open>
  Whether a constraint has a variable of the item, and the requirements without the
  entries for the item.
\<close>

definition mentions_item :: "int \<Rightarrow> (int \<times> int) LpConstraint \<Rightarrow> bool" where
  "mentions_item i c = list_ex (\<lambda>(coef, (i', l)). i' = i) (lhs c)"

definition drop_requirement :: "int \<Rightarrow> production_data \<Rightarrow> production_data" where
  "drop_requirement i production_data =
     map (\<lambda>(l, pinfo).
            (l, pinfo\<lparr>required_items :=
                        filter (\<lambda>(i', m). i' \<noteq> i) (required_items pinfo)\<rparr>))
         production_data"

text \<open>
  The entries of a schedule for a job, the entries assigned to a pair of line and slot,
  and the total quantity of the jobs assigned to the pair.
\<close>

definition entries_of_job :: "schedule_results \<Rightarrow> int \<Rightarrow> schedule_results" where
  "entries_of_job sched j = filter (\<lambda>(j', e). j' = j) sched"

definition assigned_jobs :: "schedule_results \<Rightarrow> int \<Rightarrow> nat \<Rightarrow> schedule_results" where
  "assigned_jobs sched l slot =
     filter (\<lambda>(j, e). assigned_line e = l \<and> assigned_slot e = slot) sched"

definition slot_quantity :: "schedule_results \<Rightarrow> int \<Rightarrow> nat \<Rightarrow> int" where
  "slot_quantity sched l slot =
     sum_list (map (\<lambda>(j, e). quantity (sched_job_info e)) (assigned_jobs sched l slot))"

subsection \<open>Example inputs\<close>

text \<open>
  One active item with the given stock, one active line \<open>A\<close> whose only recent record
  has an actual quantity of 10 (so that the line requires 8 of item 1 and 6 of item 2),
  and one inactive line.
\<close>

definition example_db :: "int \<Rightarrow> database" where
  "example_db stock =
     \<lparr>inventory_items =
        [\<lparr>item_id = 1, item_part_number = ''P-1'', item_current_stock = stock,
          item_unit_cost = 10, item_reorder_point = 20, item_is_active = True\<rparr>],
      production_lines =
        [\<lparr>line_id = 1, line_name = ''A'', line_capacity_per_hour = 200,
          line_efficiency_target = 9 / 10, line_is_active = True\<rparr>,
         \<lparr>line_id = 2, line_name = ''B'', line_capacity_per_hour = 200,
          line_efficiency_target = 9 / 10, line_is_active = False\<rparr>],
      production_records =
        [\<lparr>rec_production_line_id = 1, rec_planned_quantity = 20,
          rec_actual_quantity = 10, rec_created_at = 0\<rparr>],
      written = []\<rparr>"

definition example_info :: "int \<Rightarrow> inventory_info" where
  "example_info stock =
     \<lparr>part_number = ''P-1'', current_stock = stock, unit_cost = 10, reorder_point = 20\<rparr>"

definition example_line_info :: requirement_info where
  "example_line_info =
     \<lparr>name = ''A'', capacity_per_hour = 200, required_items = [(1, 8), (2, 6)]\<rparr>"

definition example_allocations :: allocation_results where
  "example_allocations =
     [(1, [(1, \<lparr>allocated_quantity = 8, item_info = example_info 100,
                 line_info = example_line_info\<rparr>)])]"

definition example_run :: row where
  "example_run =
     Run \<lparr>optimization_type = ''INVENTORY'', results = Allocation_payload example_allocations,
          objective_value = 88, run_status = ''COMPLETED''\<rparr>"

definition no_faults :: faults where
  "no_faults = \<lparr>save_fault = NoFault, apply_fault = NoFault, exit_fault = False\<rparr>"

definition apply_commit_fails :: faults where
  "apply_commit_fails = \<lparr>save_fault = NoFault, apply_fault = FailAtCommit, exit_fault = False\<rparr>"

definition optimal_solver :: "(int \<times> int) solver" where
  "optimal_solver prob =
     \<lparr>status = LpStatusOptimal, value_of = (\<lambda>v. if v = (1, 1) then 8 else 0)\<rparr>"

definition infeasible_solver :: "'v solver" where
  "infeasible_solver prob = \<lparr>status = LpStatusInfeasible, value_of = (\<lambda>v. 0)\<rparr>"

text \<open>Job 1 in slot 0, job 3 in slot 1 and job 2 in slot 2 of line 1.\<close>

definition schedule_solver :: "(int \<times> int \<times> nat) solver" where
  "schedule_solver prob =
     \<lparr>status = LpStatusOptimal,
      value_of = (\<lambda>v. if v = (1, 1, 0) \<or> v = (3, 1, 1) \<or> v = (2, 1, 2) then 1 else 0)\<rparr>"

definition example_schedule_line :: schedule_line_info where
  "example_schedule_line =
     \<lparr>sl_name = ''A'', sl_capacity_per_hour = 200, sl_efficiency_target = 9 / 10,
      setup_cost = 10\<rparr>"

definition example_schedule :: schedule_results where
  "example_schedule =
     [(1, \<lparr>assigned_line = 1, assigned_slot = 0,
            sched_job_info = \<lparr>quantity = 100, priority = 1, due_date = 28800\<rparr>,
            sched_line_info = example_schedule_line, scheduled_time = 0\<rparr>),
      (2, \<lparr>assigned_line = 1, assigned_slot = 2,
            sched_job_info = \<lparr>quantity = 150, priority = 2, due_date = 43200\<rparr>,
            sched_line_info = example_schedule_line, scheduled_time = 7200\<rparr>),
      (3, \<lparr>assigned_line = 1, assigned_slot = 1,
            sched_job_info = \<lparr>quantity = 75, priority = 1, due_date = 21600\<rparr>,
            sched_line_info = example_schedule_line, scheduled_time = 3600\<rparr>)]"

text \<open>A database whose only item is inactive.\<close>

definition inactive_db :: database where
  "inactive_db =
     \<lparr>inventory_items =
        [\<lparr>item_id = 1, item_part_number = ''P-1'', item_current_stock = 100,
          item_unit_cost = 10, item_reorder_point = 20, item_is_active = False\<rparr>],
      production_lines =
        [\<lparr>line_id = 1, line_name = ''A'', line_capacity_per_hour = 200,
          line_efficiency_target = 9 / 10, line_is_active = True\<rparr>],
      production_records = [],
      written = []\<rparr>"


definition line_A :: line_utilization where
  "line_A = \<lparr>lu_line_id = 1, lu_line_name = ''A'', current_efficiency = 50,
             target_efficiency = 90\<rparr>"


section \<open>Properties\<close>

subsection \<open>Sessions and dictionaries\<close>

lemma rows_get_session_exit:
  "pending s = [] \<Longrightarrow> rows (get_session_exit fl s n r) = committed s"
  by (simp add: get_session_exit_def session_commit_def session_rollback_def)

lemma rows_exit_rolled_back:
  "rows (get_session_exit fl (s\<lparr>pending := []\<rparr>) n r) = committed s"
  by (simp add: get_session_exit_def session_commit_def session_rollback_def)

lemma returned_exit:
  "returned (get_session_exit fl s n r) = (if exit_fault fl then Inl Exception else Inr r)"
  by (simp add: get_session_exit_def)

lemma solver_calls_exit: "solver_calls (get_session_exit fl s n r) = n"
  by (simp add: get_session_exit_def)

lemma add_all_then_commit_raises:
  "fault_raises f rs \<Longrightarrow> add_all_then_commit f s rs = s\<lparr>pending := []\<rparr>"
  by (cases f) (simp_all add: fault_raises_def add_all_then_commit_def session_add_all_def
      session_commit_def session_rollback_def)

lemma decisions_save:
  "filter is_decision (pending s) = [] \<Longrightarrow>
   filter is_decision (committed (save_optimization_result f s t p r)) =
   filter is_decision (committed s)"
  by (cases f) (simp_all add: save_optimization_result_def session_add_all_def
      session_commit_def Let_def)

lemma keys_fold_update:
  "fst ` set (fold (\<lambda>x. AList.update (k x) (v x)) xs acc) = k ` set xs \<union> fst ` set acc"
  by (induction xs arbitrary: acc) (auto simp: AList.dom_update)

lemma distinct_fold_update:
  "distinct (map fst acc) \<Longrightarrow>
   distinct (map fst (fold (\<lambda>x. AList.update (k x) (v x)) xs acc))"
  by (induction xs arbitrary: acc) (auto simp: AList.distinct_update)

lemma keys_inventory_data:
  "fst ` set (get_inventory_data db) =
   item_id ` set (filter item_is_active (inventory_items db))"
  unfolding get_inventory_data_def by (simp add: keys_fold_update)

lemma distinct_inventory_data: "distinct (map fst (get_inventory_data db))"
  unfolding get_inventory_data_def by (rule distinct_fold_update) simp

lemma keys_lines_data:
  "fst ` set (get_production_lines_data db) =
   line_id ` set (filter line_is_active (production_lines db))"
  unfolding get_production_lines_data_def by (simp add: keys_fold_update)

lemma map_of_map_keyed:
  "map_of (map (\<lambda>(k, v). (k, f k v)) xs) k' = map_option (f k') (map_of xs k')"
  by (induction xs) auto

lemma map_of_extract:
  "map_of (extract_allocation_results val idata pdata) i =
   map_option (\<lambda>info. [(l, \<lparr>allocated_quantity = py_int (val (i, l)), item_info = info,
                             line_info = pinfo\<rparr>). (l, pinfo) \<leftarrow> pdata, 0 < val (i, l)])
     (map_of idata i)"
  unfolding extract_allocation_results_def by (simp add: map_of_map_keyed)

lemma map_of_line_entries:
  "map_of [(l, f l pinfo). (l, pinfo) \<leftarrow> pdata, P l] l' =
   (if P l' then map_option (f l') (map_of pdata l') else None)"
  by (induction pdata) auto

lemma allocation_success_D:
  assumes "returned (optimize_inventory_allocation slv fl db now) =
             Inr (Allocation_success obj res)"
  shows "status (slv (current_allocation_problem db now)) = LpStatusOptimal"
    and "res = solved_allocations slv db now"
  using assms
  by (auto simp: optimize_inventory_allocation_def Let_def returned_exit
      current_allocation_problem_def solved_allocations_def split: if_splits)

subsection \<open>What a feasible point of the allocation problem satisfies\<close>

lemma feasible_allocation_nonneg:
  assumes "feasible (inventory_allocation_problem idata pdata) val"
      and "i \<in> fst ` set idata" "l \<in> fst ` set pdata"
  shows "0 \<le> val (i, l)"
proof -
  have "\<lparr>var = (i, l), lowBound = Some 0, upBound = None, integer = True\<rparr>
          \<in> set (allocation_vars idata pdata)"
    using assms(2,3) by (auto simp: allocation_vars_def)
  with assms(1)
  have "var_ok val \<lparr>var = (i, l), lowBound = Some 0, upBound = None, integer = True\<rparr>"
    by (auto simp: feasible_def inventory_allocation_problem_def list_all_iff)
  then show ?thesis by (simp add: var_ok_def)
qed

lemma feasible_stock:
  assumes "feasible (inventory_allocation_problem idata pdata) val"
      and "(i, info) \<in> set idata"
  shows "sum_list (map (\<lambda>l. val (i, l)) (map fst pdata)) \<le> of_int (current_stock info)"
proof -
  have "\<lparr>lhs = [(1, (i, l)). l \<leftarrow> map fst pdata], sense = LE,
         rhs = of_int (current_stock info)\<rparr> \<in> set (stock_constraints idata pdata)"
    using assms(2) by (force simp: stock_constraints_def)
  with assms(1)
  have "constraint_ok val \<lparr>lhs = [(1, (i, l)). l \<leftarrow> map fst pdata], sense = LE,
         rhs = of_int (current_stock info)\<rparr>"
    by (auto simp: feasible_def inventory_allocation_problem_def list_all_iff)
  then show ?thesis by (simp add: constraint_ok_def eval_expr_def comp_def)
qed

lemma feasible_requirement:
  assumes "feasible (inventory_allocation_problem idata pdata) val"
      and "(l, pinfo) \<in> set pdata" "(i, m) \<in> set (required_items pinfo)"
      and "i \<in> fst ` set idata"
  shows "of_int m \<le> val (i, l)"
proof -
  have "\<lparr>lhs = [(1, (i, l))], sense = GE, rhs = of_int m\<rparr>
          \<in> set (requirement_constraints idata pdata)"
    using assms(2-4) by (force simp: requirement_constraints_def)
  with assms(1)
  have "constraint_ok val \<lparr>lhs = [(1, (i, l))], sense = GE, rhs = of_int m\<rparr>"
    by (auto simp: feasible_def inventory_allocation_problem_def list_all_iff)
  then show ?thesis by (simp add: constraint_ok_def eval_expr_def)
qed

lemma py_int_le: "0 \<le> x \<Longrightarrow> of_int (py_int x) \<le> x"
  by (simp add: py_int_def)

lemma kept_sum_le:
  "(\<And>l. l \<in> fst ` set pdata \<Longrightarrow> 0 \<le> val (i, l)) \<Longrightarrow>
   of_int (sum_list (map (\<lambda>(l, e). allocated_quantity e)
      [(l, \<lparr>allocated_quantity = py_int (val (i, l)), item_info = info,
            line_info = pinfo\<rparr>). (l, pinfo) \<leftarrow> pdata, 0 < val (i, l)]))
   \<le> sum_list (map (\<lambda>l. val (i, l)) (map fst pdata))"
proof (induction pdata)
  case Nil
  then show ?case by simp
next
  case (Cons p pdata)
  obtain l pinfo where p: "p = (l, pinfo)" by (cases p)
  have nonneg: "0 \<le> val (i, l)" using Cons.prems[of l] p by simp
  have IH: "of_int (sum_list (map (\<lambda>(l, e). allocated_quantity e)
      [(l, \<lparr>allocated_quantity = py_int (val (i, l)), item_info = info,
            line_info = pinfo\<rparr>). (l, pinfo) \<leftarrow> pdata, 0 < val (i, l)]))
   \<le> sum_list (map (\<lambda>l. val (i, l)) (map fst pdata))"
    using Cons.IH Cons.prems by auto
  show ?case
    using IH nonneg py_int_le[OF nonneg] by (simp add: p)
qed

subsection \<open>The example runs\<close>

lemmas example_simps =
  get_session_def get_inventory_data_def get_production_requirements_def
  get_production_lines_data_def get_pending_jobs_data_def recent_records_def
  estimate_required_items_def days_def hours_def py_int_def get_session_exit_def
  session_commit_def session_rollback_def session_add_all_def save_optimization_result_def
  add_all_then_commit_def apply_inventory_allocations_def allocation_rows_def
  inventory_allocation_problem_def allocation_vars_def allocation_objective_def
  stock_constraints_def requirement_constraints_def extract_allocation_results_def
  eval_expr_def current_allocation_problem_def solved_allocations_def solved_objective_def
  example_db_def example_info_def example_line_info_def example_allocations_def
  example_run_def no_faults_def apply_commit_fails_def optimal_solver_def
  infeasible_solver_def

lemma example_inventory_data:
  "get_inventory_data (example_db stock) = [(1, example_info stock)]"
  by (simp add: example_simps)

lemma example_requirements:
  "get_production_requirements (example_db stock) 0 = [(1, example_line_info)]"
  by (simp add: example_simps)

lemma example_lines_data:
  "get_production_lines_data (example_db stock) =
     [(1, \<lparr>sl_name = ''A'', sl_capacity_per_hour = 200, sl_efficiency_target = 9 / 10,
           setup_cost = 10\<rparr>)]"
  by (simp add: example_simps)

lemma example_feasible:
  "feasible (current_allocation_problem (example_db 100) 0) (value_of (optimal_solver p))"
  by (simp add: feasible_def var_ok_def constraint_ok_def example_simps)

lemma str_one: "str 1 = ''1''"
  by code_simp

lemma example_success:
  "optimize_inventory_allocation optimal_solver no_faults (example_db 100) 0 =
     \<lparr>returned = Inr (Allocation_success 88 example_allocations),
      rows = [example_run,
              Decision \<lparr>production_line_id = 1, resource_type = ''MATERIAL'',
                        resource_id = ''1'', ra_allocated_quantity = 8, allocation_date = 0,
                        ra_status = ''PLANNED''\<rparr>],
      solver_calls = 1\<rparr>"
  by (simp add: optimize_inventory_allocation_def example_simps str_one Let_def)

section \<open>The claims\<close>

subsection \<open>Inventory allocation stays within the stock\<close>

text \<open>
  Claim C1. For every successful result of \<^verbatim>\<open>optimize_inventory_allocation\<close> and every
  item of the inventory snapshot, the sum over the production lines of the allocated
  quantities of that item in the returned allocations is at most the item's
  \<^verbatim>\<open>current_stock\<close> in the snapshot. The solver is taken to return a feasible point
  when it reports an optimum.
\<close>

theorem allocation_within_stock:
  assumes sf: "solver_feasible slv (current_allocation_problem db now)"
      and ret: "returned (optimize_inventory_allocation slv fl db now) =
                  Inr (Allocation_success obj res)"
      and item: "(i, info) \<in> set (get_inventory_data db)"
  shows "total_allocated res i \<le> current_stock info"
proof -
  let ?idata = "get_inventory_data db" and ?pdata = "get_production_requirements db now"
  let ?val = "value_of (slv (current_allocation_problem db now))"
  from allocation_success_D[OF ret] sf
  have feas: "feasible (inventory_allocation_problem ?idata ?pdata) ?val"
    and res: "res = extract_allocation_results ?val ?idata ?pdata"
    by (simp_all add: solver_feasible_def current_allocation_problem_def
        solved_allocations_def)
  have look: "map_of ?idata i = Some info"
    using item distinct_inventory_data by simp
  have nonneg: "\<And>l. l \<in> fst ` set ?pdata \<Longrightarrow> 0 \<le> ?val (i, l)"
    using feasible_allocation_nonneg[OF feas] item by force
  have "(of_int (total_allocated res i) :: rat)
          \<le> sum_list (map (\<lambda>l. ?val (i, l)) (map fst ?pdata))"
    unfolding total_allocated_def res map_of_extract look
    using kept_sum_le[of ?pdata ?val i info, OF nonneg] by simp
  also have "\<dots> \<le> of_int (current_stock info)"
    by (rule feasible_stock[OF feas item])
  finally show ?thesis by simp
qed

text \<open>
  Witness for C1: the example run allocates 8 units of item 1, whose stock is 100.
\<close>

theorem allocation_within_stock_witness:
  "solver_feasible optimal_solver (current_allocation_problem (example_db 100) 0) \<and>
   returned (optimize_inventory_allocation optimal_solver no_faults (example_db 100) 0) =
     Inr (Allocation_success 88 example_allocations) \<and>
   (1, example_info 100) \<in> set (get_inventory_data (example_db 100)) \<and>
   total_allocated example_allocations 1 = 8 \<and>
   total_allocated example_allocations 1 \<le> current_stock (example_info 100)"
proof -
  have h1: "solver_feasible optimal_solver (current_allocation_problem (example_db 100) 0)"
    using example_feasible by (simp add: solver_feasible_def)
  have h2: "returned (optimize_inventory_allocation optimal_solver no_faults (example_db 100) 0)
              = Inr (Allocation_success 88 example_allocations)"
    by (simp add: example_success)
  have h3: "(1, example_info 100) \<in> set (get_inventory_data (example_db 100))"
    by (simp add: example_inventory_data)
  have h4: "total_allocated example_allocations 1 = 8"
    by (simp add: total_allocated_def example_allocations_def)
  from allocation_within_stock[OF h1 h2 h3] h1 h2 h3 h4 show ?thesis by simp
qed

subsection \<open>Minimum requirements\<close>

text \<open>
  Counterexample to C2 as stated. In the example the line requires 6 units of item 2,
  which is no active inventory item: the solver's point is feasible, the call succeeds,
  and nothing of item 2 is allocated to the line.
\<close>

theorem requirement_of_inactive_item_unmet:
  "solver_feasible optimal_solver (current_allocation_problem (example_db 100) 0) \<and>
   returned (optimize_inventory_allocation optimal_solver no_faults (example_db 100) 0) =
     Inr (Allocation_success 88 example_allocations) \<and>
   get_production_requirements (example_db 100) 0 = [(1, example_line_info)] \<and>
   map_of (required_items example_line_info) 2 = Some 6 \<and>
   map_of example_allocations 2 = None \<and>
   allocated example_allocations 2 1 = 0 \<and>
   \<not> 6 \<le> allocated example_allocations 2 1"
proof -
  have "solver_feasible optimal_solver (current_allocation_problem (example_db 100) 0)"
    using example_feasible by (simp add: solver_feasible_def)
  then show ?thesis
    by (simp add: example_success example_requirements example_line_info_def allocated_def
        example_allocations_def)
qed

text \<open>
  Claim C2, amended. For every successful result of
  \<^verbatim>\<open>optimize_inventory_allocation\<close>, every line of the production-requirements snapshot
  and every minimum requirement of that line for an item that is among the active
  inventory items, the allocated quantity of the item to the line is at least the
  minimum. The solver is taken to return a feasible point when it reports an optimum.
\<close>

theorem requirement_of_active_item_met:
  assumes sf: "solver_feasible slv (current_allocation_problem db now)"
      and ret: "returned (optimize_inventory_allocation slv fl db now) =
                  Inr (Allocation_success obj res)"
      and line: "(l, pinfo) \<in> set (get_production_requirements db now)"
      and req: "(i, m) \<in> set (required_items pinfo)"
      and active: "i \<in> item_id ` set (filter item_is_active (inventory_items db))"
  shows "m \<le> allocated res i l"
proof -
  let ?idata = "get_inventory_data db" and ?pdata = "get_production_requirements db now"
  let ?val = "value_of (slv (current_allocation_problem db now))"
  from allocation_success_D[OF ret] sf
  have feas: "feasible (inventory_allocation_problem ?idata ?pdata) ?val"
    and res: "res = extract_allocation_results ?val ?idata ?pdata"
    by (simp_all add: solver_feasible_def current_allocation_problem_def
        solved_allocations_def)
  have key: "i \<in> fst ` set ?idata" using active by (simp add: keys_inventory_data)
  then obtain info where look: "map_of ?idata i = Some info"
    by (metis domD dom_map_of_conv_image_fst)
  have ge: "of_int m \<le> ?val (i, l)"
    by (rule feasible_requirement[OF feas line req key])
  obtain pinfo' where look': "map_of ?pdata l = Some pinfo'"
    using line by (metis domD dom_map_of_conv_image_fst fst_conv image_eqI)
  show ?thesis
  proof (cases "0 < ?val (i, l)")
    case True
    then have "allocated res i l = py_int (?val (i, l))"
      unfolding allocated_def res map_of_extract look
      by (simp add: map_of_line_entries look')
    moreover have "m \<le> \<lfloor>?val (i, l)\<rfloor>" using ge by (simp add: le_floor_iff)
    ultimately show ?thesis using True by (simp add: py_int_def)
  next
    case False
    then have "allocated res i l = 0"
      unfolding allocated_def res map_of_extract look
      by (simp add: map_of_line_entries)
    moreover from False ge have "of_int m \<le> (0::rat)" by linarith
    then have "m \<le> 0" by simp
    ultimately show ?thesis by simp
  qed
qed

text \<open>
  Witness for the amended C2: in the example, line 1 requires 8 units of the active
  item 1 and is allocated 8.
\<close>

theorem requirement_of_active_item_met_witness:
  "solver_feasible optimal_solver (current_allocation_problem (example_db 100) 0) \<and>
   returned (optimize_inventory_allocation optimal_solver no_faults (example_db 100) 0) =
     Inr (Allocation_success 88 example_allocations) \<and>
   (1, example_line_info) \<in> set (get_production_requirements (example_db 100) 0) \<and>
   (1, 8) \<in> set (required_items example_line_info) \<and>
   1 \<in> item_id ` set (filter item_is_active (inventory_items (example_db 100))) \<and>
   8 \<le> allocated example_allocations 1 1"
proof -
  have h1: "solver_feasible optimal_solver (current_allocation_problem (example_db 100) 0)"
    using example_feasible by (simp add: solver_feasible_def)
  have h2: "returned (optimize_inventory_allocation optimal_solver no_faults (example_db 100) 0)
              = Inr (Allocation_success 88 example_allocations)"
    by (simp add: example_success)
  have h3: "(1, example_line_info) \<in> set (get_production_requirements (example_db 100) 0)"
    by (simp add: example_requirements)
  have h4: "(1, 8) \<in> set (required_items example_line_info)"
    by (simp add: example_line_info_def)
  have h5: "1 \<in> item_id ` set (filter item_is_active (inventory_items (example_db 100)))"
    by (simp add: example_db_def)
  from requirement_of_active_item_met[OF h1 h2 h3 h4 h5] h1 h2 h3 h4 h5
  show ?thesis by simp
qed

subsection \<open>A solve that does not reach optimality\<close>

text \<open>
  Counterexample to C5 as stated. With a stock of 5 the example line's requirement of 8
  units cannot be met; the solver reports \<open>LpStatusInfeasible\<close>, the call returns
  \<^verbatim>\<open>no_optimal_solution\<close>, and the written tables stay empty: no
  \<^verbatim>\<open>OptimizationResult\<close> row, with status \<^verbatim>\<open>FAILED\<close> or any other, is produced.
\<close>

theorem failed_solve_writes_no_run:
  "status (infeasible_solver (current_allocation_problem (example_db 5) 0)) =
     LpStatusInfeasible \<and>
   optimize_inventory_allocation infeasible_solver no_faults (example_db 5) 0 =
     \<lparr>returned = Inr (Failed ''no_optimal_solution''), rows = [], solver_calls = 1\<rparr>"
  by (simp add: optimize_inventory_allocation_def example_simps Let_def)

text \<open>
  Claim C5, amended. Whenever the solve of the inventory allocation or of the production
  schedule model does not reach optimality, the call writes nothing: neither an
  \<^verbatim>\<open>OptimizationResult\<close> row nor a \<^verbatim>\<open>ResourceAllocation\<close> row; and, the snapshot
  being non-empty and the closing commit of the session not raising, it returns
  \<^verbatim>\<open>{'status': 'failed', 'reason': 'no_optimal_solution'}\<close>.
\<close>

theorem failed_solve_writes_nothing:
  "(status (slv_a (current_allocation_problem db now)) \<noteq> LpStatusOptimal \<longrightarrow>
      rows (optimize_inventory_allocation slv_a fl db now) = written db \<and>
      (get_inventory_data db \<noteq> [] \<and> get_production_requirements db now \<noteq> [] \<and>
       \<not> exit_fault fl \<longrightarrow>
         returned (optimize_inventory_allocation slv_a fl db now) =
           Inr (Failed ''no_optimal_solution''))) \<and>
   (status (slv_s (current_schedule_problem db now)) \<noteq> LpStatusOptimal \<longrightarrow>
      rows (optimize_production_schedule slv_s fl db now) = written db \<and>
      (get_production_lines_data db \<noteq> [] \<and> \<not> exit_fault fl \<longrightarrow>
         returned (optimize_production_schedule slv_s fl db now) =
           Inr (Failed ''no_optimal_solution'')))"
  by (simp add: optimize_inventory_allocation_def optimize_production_schedule_def Let_def
      rows_get_session_exit get_session_def returned_exit get_pending_jobs_data_def
      current_allocation_problem_def current_schedule_problem_def)

text \<open>
  Witness for the amended C5: the infeasible solver on the example with a stock of 5,
  for both entry points.
\<close>

theorem failed_solve_writes_nothing_witness:
  "status (infeasible_solver (current_allocation_problem (example_db 5) 0)) \<noteq> LpStatusOptimal \<and>
   status (infeasible_solver (current_schedule_problem (example_db 5) 0)) \<noteq> LpStatusOptimal \<and>
   get_inventory_data (example_db 5) \<noteq> [] \<and>
   get_production_requirements (example_db 5) 0 \<noteq> [] \<and>
   get_production_lines_data (example_db 5) \<noteq> [] \<and>
   \<not> exit_fault no_faults \<and>
   rows (optimize_inventory_allocation infeasible_solver no_faults (example_db 5) 0) =
     written (example_db 5) \<and>
   returned (optimize_inventory_allocation infeasible_solver no_faults (example_db 5) 0) =
     Inr (Failed ''no_optimal_solution'') \<and>
   rows (optimize_production_schedule infeasible_solver no_faults (example_db 5) 0) =
     written (example_db 5) \<and>
   returned (optimize_production_schedule infeasible_solver no_faults (example_db 5) 0) =
     Inr (Failed ''no_optimal_solution'')"
proof -
  have h1: "status (infeasible_solver (current_allocation_problem (example_db 5) 0))
              \<noteq> LpStatusOptimal"
    and h2: "status (infeasible_solver (current_schedule_problem (example_db 5) 0))
              \<noteq> LpStatusOptimal"
    by (simp_all add: infeasible_solver_def)
  have h3: "get_inventory_data (example_db 5) \<noteq> []"
    and h4: "get_production_requirements (example_db 5) 0 \<noteq> []"
    and h5: "get_production_lines_data (example_db 5) \<noteq> []"
    by (simp_all add: example_inventory_data example_requirements example_lines_data)
  have h6: "\<not> exit_fault no_faults" by (simp add: no_faults_def)
  from failed_solve_writes_nothing
         [of infeasible_solver "example_db 5" 0 no_faults infeasible_solver]
       h1 h2 h3 h4 h5 h6
  show ?thesis by simp
qed

subsection \<open>Insufficient data\<close>

text \<open>
  Claim C6. If there are no active inventory items, or no active production lines to
  derive requirements from, \<^verbatim>\<open>optimize_inventory_allocation\<close> does not run the solver
  and writes no \<^verbatim>\<open>OptimizationResult\<close> or \<^verbatim>\<open>ResourceAllocation\<close> row; the closing
  commit of the session not raising, it returns
  \<^verbatim>\<open>{'status': 'failed', 'reason': 'insufficient_data'}\<close>.
\<close>

theorem insufficient_data_skips_solver:
  assumes "filter item_is_active (inventory_items db) = [] \<or>
           filter line_is_active (production_lines db) = []"
  shows "solver_calls (optimize_inventory_allocation slv fl db now) = 0 \<and>
         rows (optimize_inventory_allocation slv fl db now) = written db \<and>
         (\<not> exit_fault fl \<longrightarrow>
            returned (optimize_inventory_allocation slv fl db now) =
              Inr (Failed ''insufficient_data''))"
proof -
  from assms
  have "get_inventory_data db = [] \<or> get_production_requirements db now = []"
    by (auto simp: get_inventory_data_def get_production_requirements_def)
  then show ?thesis
    by (auto simp: optimize_inventory_allocation_def Let_def rows_get_session_exit
        get_session_def returned_exit solver_calls_exit)
qed

text \<open>Witness for C6: a database whose only item is inactive, with any solver.\<close>

theorem insufficient_data_skips_solver_witness:
  "filter item_is_active (inventory_items inactive_db) = [] \<and>
   \<not> exit_fault no_faults \<and>
   solver_calls (optimize_inventory_allocation optimal_solver no_faults inactive_db 0) = 0 \<and>
   rows (optimize_inventory_allocation optimal_solver no_faults inactive_db 0) =
     written inactive_db \<and>
   returned (optimize_inventory_allocation optimal_solver no_faults inactive_db 0) =
     Inr (Failed ''insufficient_data'')"
proof -
  have h1: "filter item_is_active (inventory_items inactive_db) = []"
    by (simp add: inactive_db_def)
  have h2: "\<not> exit_fault no_faults" by (simp add: no_faults_def)
  from insufficient_data_skips_solver
         [of inactive_db optimal_solver no_faults 0, OF disjI1, OF h1] h1 h2
  show ?thesis by simp
qed

subsection \<open>A failure while applying the results\<close>

text \<open>
  Counterexample to C7 as stated. In the example the commit of
  \<^verbatim>\<open>_apply_inventory_allocations\<close> raises: the session is rolled back, so that only the
  run is in the written tables, but the exception is not raised to the caller: the call
  returns the success dictionary with the allocations.
\<close>

theorem apply_failure_not_raised:
  "optimize_inventory_allocation optimal_solver apply_commit_fails (example_db 100) 0 =
     \<lparr>returned = Inr (Allocation_success 88 example_allocations),
      rows = [example_run], solver_calls = 1\<rparr>"
  by (simp add: optimize_inventory_allocation_def example_simps Let_def)

text \<open>
  Claim C7, amended. If an exception occurs while the results of an optimization are
  applied (in an add or in the commit of \<^verbatim>\<open>_apply_inventory_allocations\<close> or
  \<^verbatim>\<open>_apply_production_schedule\<close>), the session is rolled back, so that no decision row
  of that optimization is written, and the exception is logged and not raised: the
  closing commit of the session not raising, the call returns the success dictionary
  with the decisions that were not persisted.
\<close>

theorem apply_failure_rolled_back_and_swallowed:
  "(status (slv_a (current_allocation_problem db now)) = LpStatusOptimal \<and>
    get_inventory_data db \<noteq> [] \<and> get_production_requirements db now \<noteq> [] \<and>
    fault_raises (apply_fault fl) (allocation_rows (solved_allocations slv_a db now) now)
    \<longrightarrow>
      filter is_decision (rows (optimize_inventory_allocation slv_a fl db now)) =
        filter is_decision (written db) \<and>
      (\<not> exit_fault fl \<longrightarrow>
         returned (optimize_inventory_allocation slv_a fl db now) =
           Inr (Allocation_success (solved_objective slv_a (current_allocation_problem db now))
                  (solved_allocations slv_a db now)))) \<and>
   (status (slv_s (current_schedule_problem db now)) = LpStatusOptimal \<and>
    get_production_lines_data db \<noteq> [] \<and>
    fault_raises (apply_fault fl) (schedule_rows (solved_schedule slv_s db now))
    \<longrightarrow>
      filter is_decision (rows (optimize_production_schedule slv_s fl db now)) =
        filter is_decision (written db) \<and>
      (\<not> exit_fault fl \<longrightarrow>
         returned (optimize_production_schedule slv_s fl db now) =
           Inr (Schedule_success (solved_objective slv_s (current_schedule_problem db now))
                  (solved_schedule slv_s db now))))"
  by (simp add: optimize_inventory_allocation_def optimize_production_schedule_def Let_def
      apply_inventory_allocations_def apply_production_schedule_def
      add_all_then_commit_raises rows_exit_rolled_back decisions_save get_session_def
      returned_exit get_pending_jobs_data_def current_allocation_problem_def
      current_schedule_problem_def solved_allocations_def solved_schedule_def
      solved_objective_def)

text \<open>
  Witness for the amended C7: the commit of the apply step fails in the example, for
  both entry points.
\<close>

theorem apply_failure_rolled_back_and_swallowed_witness:
  "status (optimal_solver (current_allocation_problem (example_db 100) 0)) = LpStatusOptimal \<and>
   status (schedule_solver (current_schedule_problem (example_db 100) 0)) = LpStatusOptimal \<and>
   fault_raises (apply_fault apply_commit_fails)
     (allocation_rows (solved_allocations optimal_solver (example_db 100) 0) 0) \<and>
   fault_raises (apply_fault apply_commit_fails)
     (schedule_rows (solved_schedule schedule_solver (example_db 100) 0)) \<and>
   filter is_decision
     (rows (optimize_inventory_allocation optimal_solver apply_commit_fails (example_db 100) 0))
     = [] \<and>
   returned (optimize_inventory_allocation optimal_solver apply_commit_fails (example_db 100) 0)
     = Inr (Allocation_success
              (solved_objective optimal_solver (current_allocation_problem (example_db 100) 0))
              (solved_allocations optimal_solver (example_db 100) 0)) \<and>
   filter is_decision
     (rows (optimize_production_schedule schedule_solver apply_commit_fails (example_db 100) 0))
     = [] \<and>
   returned (optimize_production_schedule schedule_solver apply_commit_fails (example_db 100) 0)
     = Inr (Schedule_success
              (solved_objective schedule_solver (current_schedule_problem (example_db 100) 0))
              (solved_schedule schedule_solver (example_db 100) 0))"
proof -
  have h1: "status (optimal_solver (current_allocation_problem (example_db 100) 0))
              = LpStatusOptimal"
    and h2: "status (schedule_solver (current_schedule_problem (example_db 100) 0))
              = LpStatusOptimal"
    by (simp_all add: optimal_solver_def schedule_solver_def)
  have h3: "get_inventory_data (example_db 100) \<noteq> []"
    and h4: "get_production_requirements (example_db 100) 0 \<noteq> []"
    and h5: "get_production_lines_data (example_db 100) \<noteq> []"
    by (simp_all add: example_inventory_data example_requirements example_lines_data)
  have h6: "\<And>rs. fault_raises (apply_fault apply_commit_fails) rs"
    by (simp add: fault_raises_def apply_commit_fails_def)
  have h7: "\<not> exit_fault apply_commit_fails" by (simp add: apply_commit_fails_def)
  have h8: "written (example_db 100) = []" by (simp add: example_db_def)
  from apply_failure_rolled_back_and_swallowed
         [of optimal_solver "example_db 100" 0 apply_commit_fails schedule_solver]
       h1 h2 h3 h4 h5 h6 h7 h8
  show ?thesis by simp
qed

subsection \<open>Utilization recommendations\<close>



text \<open>
  Claim C10. \<^verbatim>\<open>optimize_resource_utilization\<close> emits no \<^verbatim>\<open>inventory_optimization\<close>
  recommendation, whatever the database holds: the \<^verbatim>\<open>turnover_rate\<close> of every item of
  the utilization data is 4, and the recommendation needs a rate strictly below 4.
\<close>

theorem no_inventory_optimization_recommendation:
  assumes "returned (optimize_resource_utilization fl db now) =
             Inr (Utilization_success recs metrics)"
  shows "filter is_inventory_optimization recs = [] \<and>
         list_all (\<lambda>item_data. turnover_rate item_data = 4) (inventory metrics)"
  using assms
  by (auto simp: optimize_resource_utilization_def Let_def get_session_exit_def
      utilization_recommendations_def get_resource_utilization_data_def
      efficiency_recommendation_def filter_empty_conv list_all_iff split: if_splits)

text \<open>
  Witness for C10: the example database has an active item, and the pass returns the
  recommendation for line \<open>A\<close> only.
\<close>

theorem no_inventory_optimization_recommendation_witness:
  "returned (optimize_resource_utilization no_faults (example_db 100) 0) =
     Inr (Utilization_success [efficiency_recommendation line_A]
            \<lparr>lines = [line_A],
             inventory = [\<lparr>iu_item_id = 1, iu_part_number = ''P-1'', iu_current_stock = 100,
                           turnover_rate = 4\<rparr>]\<rparr>) \<and>
   filter is_inventory_optimization [efficiency_recommendation line_A] = []"
proof -
  have ret: "returned (optimize_resource_utilization no_faults (example_db 100) 0) =
     Inr (Utilization_success [efficiency_recommendation line_A]
            \<lparr>lines = [line_A],
             inventory = [\<lparr>iu_item_id = 1, iu_part_number = ''P-1'', iu_current_stock = 100,
                           turnover_rate = 4\<rparr>]\<rparr>)"
    by (simp add: optimize_resource_utilization_def Let_def get_session_exit_def
        get_resource_utilization_data_def utilization_recommendations_def
        line_current_efficiency_def recent_records_def days_def example_db_def
        no_faults_def line_A_def)
  from no_inventory_optimization_recommendation[OF ret] ret show ?thesis by simp
qed

subsection \<open>Requirements for items outside the inventory snapshot\<close>

lemma concat_map_filter_irrelevant:
  "(\<And>x. x \<in> set xs \<Longrightarrow> \<not> P x \<Longrightarrow> g x = []) \<Longrightarrow>
   concat (map g (filter P xs)) = concat (map g xs)"
  by (induction xs) auto

lemma requirement_constraints_drop:
  assumes "i \<notin> fst ` set idata"
  shows "requirement_constraints idata (drop_requirement i pdata) =
         requirement_constraints idata pdata"
proof -
  have inner: "concat (map (\<lambda>(i', m). if i' \<in> fst ` set idata
                 then [\<lparr>lhs = [(1, (i', l))], sense = GE, rhs = of_int m\<rparr>] else [])
              (filter (\<lambda>(i', m). i' \<noteq> i) reqs)) =
        concat (map (\<lambda>(i', m). if i' \<in> fst ` set idata
                 then [\<lparr>lhs = [(1, (i', l))], sense = GE, rhs = of_int m\<rparr>] else [])
              reqs)" for l :: int and reqs :: "(int \<times> int) list"
    by (rule concat_map_filter_irrelevant) (use assms in auto)
  show ?thesis
    unfolding requirement_constraints_def drop_requirement_def
    by (induction pdata) (auto simp: inner)
qed

lemma allocation_problem_drop:
  assumes "i \<notin> fst ` set idata"
  shows "inventory_allocation_problem idata (drop_requirement i pdata) =
         inventory_allocation_problem idata pdata"
proof -
  have keys: "map fst (drop_requirement i pdata) = map fst pdata"
    by (induction pdata) (auto simp: drop_requirement_def)
  show ?thesis
    by (simp add: inventory_allocation_problem_def allocation_vars_def
        allocation_objective_def stock_constraints_def keys
        requirement_constraints_drop[OF assms])
qed

lemma no_constraint_mentions:
  assumes "i \<notin> fst ` set idata"
  shows "filter (mentions_item i) (constraints (inventory_allocation_problem idata pdata)) = []"
proof -
  from assms have "(i, info) \<notin> set idata" for info by force
  then show ?thesis
    by (auto simp: filter_empty_conv inventory_allocation_problem_def stock_constraints_def
        requirement_constraints_def mentions_item_def list_ex_iff)
qed

lemma example_optimal:
  "is_optimal (current_allocation_problem (example_db 100) 0) (value_of (optimal_solver p))"
  unfolding is_optimal_def
proof (intro conjI allI impI)
  show "feasible (current_allocation_problem (example_db 100) 0) (value_of (optimal_solver p))"
    by (rule example_feasible)
next
  fix val'
  assume "feasible (current_allocation_problem (example_db 100) 0) val'"
  then have "8 \<le> val' (1, 1)"
    by (simp add: feasible_def constraint_ok_def example_simps)
  then show "eval_expr (value_of (optimal_solver p))
               (objective (current_allocation_problem (example_db 100) 0))
             \<le> eval_expr val' (objective (current_allocation_problem (example_db 100) 0))"
    by (simp add: example_simps)
qed

text \<open>
  Claim C9. In \<^verbatim>\<open>optimize_inventory_allocation\<close>, a minimum requirement for an item
  that is not among the active inventory items is dropped silently: no constraint of
  the problem has a variable of that item, the problem is the one built without the
  requirement, no exception is raised for it (the only exception of the model is the
  one of the closing commit), and a successful result has no allocation of that item.
\<close>

theorem requirement_of_unknown_item_dropped:
  assumes "i \<notin> item_id ` set (filter item_is_active (inventory_items db))"
  shows "filter (mentions_item i) (constraints (current_allocation_problem db now)) = [] \<and>
         inventory_allocation_problem (get_inventory_data db)
           (drop_requirement i (get_production_requirements db now)) =
           current_allocation_problem db now \<and>
         (\<not> exit_fault fl \<longrightarrow>
            returned (optimize_inventory_allocation slv fl db now) \<noteq> Inl Exception) \<and>
         (returned (optimize_inventory_allocation slv fl db now) =
            Inr (Allocation_success obj res) \<longrightarrow>
          map_of res i = None \<and> allocated res i l = 0)"
proof -
  from assms have key: "i \<notin> fst ` set (get_inventory_data db)"
    by (simp add: keys_inventory_data)
  have none: "map_of (solved_allocations slv db now) i = None"
    using key by (simp add: solved_allocations_def map_of_extract map_of_eq_None_iff)
  have "returned (optimize_inventory_allocation slv fl db now) =
            Inr (Allocation_success obj res) \<longrightarrow>
          map_of res i = None \<and> allocated res i l = 0"
    using none by (auto simp: allocated_def dest: allocation_success_D(2))
  moreover have "\<not> exit_fault fl \<longrightarrow>
            returned (optimize_inventory_allocation slv fl db now) \<noteq> Inl Exception"
    by (simp add: optimize_inventory_allocation_def Let_def returned_exit)
  ultimately show ?thesis
    using no_constraint_mentions[OF key] allocation_problem_drop[OF key]
    by (simp add: current_allocation_problem_def)
qed

text \<open>
  Witness for C9: in the example, item 2 is no active item and line 1 requires 6 units
  of it; the solver's point is optimal for the problem that was built, the call
  succeeds, and the result has no allocation of item 2.
\<close>

theorem requirement_of_unknown_item_dropped_witness:
  "2 \<notin> item_id ` set (filter item_is_active (inventory_items (example_db 100))) \<and>
   get_production_requirements (example_db 100) 0 = [(1, example_line_info)] \<and>
   (2, 6) \<in> set (required_items example_line_info) \<and>
   solver_optimal optimal_solver (current_allocation_problem (example_db 100) 0) \<and>
   status (optimal_solver (current_allocation_problem (example_db 100) 0)) = LpStatusOptimal \<and>
   filter (mentions_item 2) (constraints (current_allocation_problem (example_db 100) 0)) = [] \<and>
   returned (optimize_inventory_allocation optimal_solver no_faults (example_db 100) 0) =
     Inr (Allocation_success 88 example_allocations) \<and>
   map_of example_allocations 2 = None \<and>
   allocated example_allocations 2 1 = 0"
proof -
  have h1: "2 \<notin> item_id ` set (filter item_is_active (inventory_items (example_db 100)))"
    by (simp add: example_db_def)
  have h2: "(2, 6) \<in> set (required_items example_line_info)"
    by (simp add: example_line_info_def)
  have h3: "solver_optimal optimal_solver (current_allocation_problem (example_db 100) 0)"
    using example_optimal by (simp add: solver_optimal_def)
  have h4: "status (optimal_solver (current_allocation_problem (example_db 100) 0))
              = LpStatusOptimal"
    by (simp add: optimal_solver_def)
  have h5: "returned (optimize_inventory_allocation optimal_solver no_faults (example_db 100) 0)
              = Inr (Allocation_success 88 example_allocations)"
    by (simp add: example_success)
  from requirement_of_unknown_item_dropped
         [OF h1, of 0 no_faults optimal_solver 88 example_allocations 1]
       h1 h2 h3 h4 h5 example_requirements[of 100]
  show ?thesis by simp
qed

subsection \<open>The minimal allocation of the single-item problem\<close>

lemma single_item_feasible_30:
  assumes "current_stock info = 100"
      and "distinct (map fst (required_items pinfo))"
      and "(1, 30) \<in> set (required_items pinfo)"
  shows "feasible (inventory_allocation_problem [(1, info)] [(l, pinfo)]) (\<lambda>v. 30)"
proof -
  have "m = 30" if "(1, m) \<in> set (required_items pinfo)" for m
    using assms(2,3) that by (meson eq_key_imp_eq_value)
  then show ?thesis
    using assms(1)
    by (auto simp: feasible_def inventory_allocation_problem_def allocation_vars_def
        stock_constraints_def requirement_constraints_def var_ok_def constraint_ok_def
        eval_expr_def list_all_iff)
qed

text \<open>
  Claim C4. For the inventory snapshot with the single item 1 (stock 100, unit cost 10)
  and a single production line whose \<^verbatim>\<open>required_items\<close> asks for 30 units of item 1,
  an optimal solution of the inventory allocation model gives the variable of item 1
  and the line the value 30, and the extracted result allocates exactly 30 units of
  item 1 to the line.
\<close>

theorem single_item_minimal_allocation:
  assumes stock: "current_stock info = 100" and cost: "unit_cost info = 10"
      and keys: "distinct (map fst (required_items pinfo))"
      and req: "(1, 30) \<in> set (required_items pinfo)"
      and opt: "solver_optimal slv (inventory_allocation_problem [(1, info)] [(l, pinfo)])"
      and st: "status (slv (inventory_allocation_problem [(1, info)] [(l, pinfo)])) =
                 LpStatusOptimal"
  shows "value_of (slv (inventory_allocation_problem [(1, info)] [(l, pinfo)])) (1, l) = 30 \<and>
         extract_allocation_results
           (value_of (slv (inventory_allocation_problem [(1, info)] [(l, pinfo)])))
           [(1, info)] [(l, pinfo)] =
         [(1, [(l, \<lparr>allocated_quantity = 30, item_info = info, line_info = pinfo\<rparr>)])]"
proof -
  let ?prob = "inventory_allocation_problem [(1, info)] [(l, pinfo)]"
  let ?val = "value_of (slv ?prob)"
  from opt st have feas: "feasible ?prob ?val"
    and least: "\<And>val'. feasible ?prob val' \<Longrightarrow>
                  eval_expr ?val (objective ?prob) \<le> eval_expr val' (objective ?prob)"
    by (simp_all add: solver_optimal_def is_optimal_def)
  have obj: "eval_expr v (objective ?prob) = 11 * v (1, l)" for v
    by (simp add: inventory_allocation_problem_def allocation_objective_def eval_expr_def cost)
  have "of_int 30 \<le> ?val (1, l)"
    by (rule feasible_requirement[OF feas _ req]) simp_all
  moreover have "11 * ?val (1, l) \<le> 11 * 30"
    using least[OF single_item_feasible_30[OF stock keys req, of l]] by (simp add: obj)
  ultimately have v: "?val (1, l) = 30" by simp
  then show ?thesis
    by (simp add: extract_allocation_results_def py_int_def)
qed

text \<open>
  Witness for C4: line 7 requires 30 units of item 1 and 22 of item 2, and the solver
  returns 30 for every variable, which is optimal.
\<close>

theorem single_item_minimal_allocation_witness:
  "current_stock (example_info 100) = 100 \<and> unit_cost (example_info 100) = 10 \<and>
   distinct (map fst (required_items (example_line_info\<lparr>required_items := [(1, 30), (2, 22)]\<rparr>))) \<and>
   solver_optimal (\<lambda>prob. \<lparr>status = LpStatusOptimal, value_of = (\<lambda>v. 30)\<rparr>)
     (inventory_allocation_problem [(1, example_info 100)]
        [(7, example_line_info\<lparr>required_items := [(1, 30), (2, 22)]\<rparr>)]) \<and>
   extract_allocation_results (\<lambda>v. 30) [(1, example_info 100)]
     [(7, example_line_info\<lparr>required_items := [(1, 30), (2, 22)]\<rparr>)] =
   [(1, [(7, \<lparr>allocated_quantity = 30, item_info = example_info 100,
               line_info = example_line_info\<lparr>required_items := [(1, 30), (2, 22)]\<rparr>\<rparr>)])]"
proof -
  let ?pinfo = "example_line_info\<lparr>required_items := [(1, 30), (2, 22)]\<rparr>"
  let ?slv = "\<lambda>prob :: (int \<times> int) LpProblem.
                \<lparr>status = LpStatusOptimal, value_of = (\<lambda>v :: int \<times> int. 30 :: rat)\<rparr>"
  let ?prob = "inventory_allocation_problem [(1, example_info 100)] [(7, ?pinfo)]"
  have h1: "current_stock (example_info 100) = 100"
    and h2: "unit_cost (example_info 100) = 10"
    by (simp_all add: example_info_def)
  have h3: "distinct (map fst (required_items ?pinfo))" by simp
  have h4: "(1, 30) \<in> set (required_items ?pinfo)" by simp
  have feas: "feasible ?prob (\<lambda>v. 30)"
    by (rule single_item_feasible_30[OF h1 h3 h4])
  have "eval_expr (\<lambda>v. 30) (objective ?prob) \<le> eval_expr val' (objective ?prob)"
    if "feasible ?prob val'" for val'
  proof -
    have "of_int 30 \<le> val' (1, 7)"
      by (rule feasible_requirement[OF that _ h4]) simp_all
    then show ?thesis
      by (simp add: inventory_allocation_problem_def allocation_objective_def eval_expr_def h2)
  qed
  with feas have h5: "solver_optimal ?slv ?prob"
    by (simp add: solver_optimal_def is_optimal_def)
  have h6: "status (?slv ?prob) = LpStatusOptimal" by simp
  from single_item_minimal_allocation[OF h1 h2 h3 h4 h5 h6] h1 h2 h3 h5
  show ?thesis by simp
qed

subsection \<open>What a feasible point of the schedule problem satisfies\<close>

lemma schedule_success_D:
  assumes "returned (optimize_production_schedule slv fl db now) =
             Inr (Schedule_success obj sched)"
  shows "status (slv (current_schedule_problem db now)) = LpStatusOptimal"
    and "sched = solved_schedule slv db now"
  using assms
  by (auto simp: optimize_production_schedule_def Let_def returned_exit
      current_schedule_problem_def solved_schedule_def split: if_splits)

lemma unit_sum_has_one:
  "eval_expr val e = 1 \<Longrightarrow>
   (\<And>c v. (c, v) \<in> set e \<Longrightarrow> c = 1 \<and> (val v = 0 \<or> val v = 1)) \<Longrightarrow>
   \<exists>(c, v) \<in> set e. val v = 1"
proof (induction e)
  case Nil
  then show ?case by (simp add: eval_expr_def)
next
  case (Cons p e)
  obtain c v where p: "p = (c, v)" by (cases p)
  from Cons.prems(2)[of c v] p have c: "c = 1" and v: "val v = 0 \<or> val v = 1" by auto
  show ?case
  proof (cases "val v = 1")
    case True
    then show ?thesis by (auto simp: p)
  next
    case False
    with v have "val v = 0" by simp
    with Cons.prems(1) have "eval_expr val e = 1" by (simp add: eval_expr_def p)
    from Cons.IH[OF this] Cons.prems(2) show ?thesis by auto
  qed
qed

lemma feasible_schedule_binary:
  assumes "feasible (production_schedule_problem jdata ldata) val"
      and "j \<in> fst ` set jdata" "l \<in> fst ` set ldata" "slot < 24"
  shows "val (j, l, slot) = 0 \<or> val (j, l, slot) = 1"
proof -
  have "\<lparr>var = (j, l, slot), lowBound = Some 0, upBound = Some 1, integer = True\<rparr>
          \<in> set (schedule_vars jdata ldata)"
    using assms(2-4) by (force simp: schedule_vars_def time_slots_def)
  with assms(1)
  have "var_ok val \<lparr>var = (j, l, slot), lowBound = Some 0, upBound = Some 1,
                      integer = True\<rparr>"
    by (auto simp: feasible_def production_schedule_problem_def list_all_iff)
  then have b: "0 \<le> val (j, l, slot)" "val (j, l, slot) \<le> 1"
    and i: "of_int \<lfloor>val (j, l, slot)\<rfloor> = val (j, l, slot)"
    by (simp_all add: var_ok_def)
  from b have "0 \<le> \<lfloor>val (j, l, slot)\<rfloor>" "\<lfloor>val (j, l, slot)\<rfloor> \<le> 1"
    by (simp_all add: floor_le_iff)
  then have "\<lfloor>val (j, l, slot)\<rfloor> = 0 \<or> \<lfloor>val (j, l, slot)\<rfloor> = 1" by linarith
  with i show ?thesis by (metis of_int_0 of_int_1)
qed

lemma feasible_schedule_assigned:
  assumes feas: "feasible (production_schedule_problem jdata ldata) val"
      and j: "j \<in> fst ` set jdata"
  shows "\<exists>l \<in> fst ` set ldata. \<exists>slot < 24. val (j, l, slot) = 1"
proof -
  let ?e = "[(1 :: rat, (j, l, slot)). l \<leftarrow> map fst ldata, slot \<leftarrow> time_slots]"
  have "\<lparr>lhs = ?e, sense = EQ, rhs = 1\<rparr> \<in> set (assignment_constraints jdata ldata)"
    using j by (force simp: assignment_constraints_def)
  with feas have "constraint_ok val \<lparr>lhs = ?e, sense = EQ, rhs = 1\<rparr>"
    by (auto simp: feasible_def production_schedule_problem_def list_all_iff)
  then have one: "eval_expr val ?e = 1" by (simp add: constraint_ok_def)
  have "\<exists>(c, v) \<in> set ?e. val v = 1"
  proof (rule unit_sum_has_one[OF one])
    fix c v assume "(c, v) \<in> set ?e"
    then obtain l slot where "c = 1" "v = (j, l, slot)" "l \<in> fst ` set ldata" "slot < 24"
      by (force simp: time_slots_def)
    then show "c = 1 \<and> (val v = 0 \<or> val v = 1)"
      using feasible_schedule_binary[OF feas j] by simp
  qed
  then show ?thesis by (force simp: time_slots_def)
qed

lemma feasible_schedule_slot:
  assumes feas: "feasible (production_schedule_problem (get_pending_jobs_data now) ldata) val"
      and "l \<in> fst ` set ldata" "slot < 24"
  shows "val (1, l, slot) + val (2, l, slot) + val (3, l, slot) \<le> 1"
proof -
  let ?e = "[(1 :: rat, (j, l, slot)). j \<leftarrow> map fst (get_pending_jobs_data now)]"
  have "\<lparr>lhs = ?e, sense = LE, rhs = 1\<rparr>
          \<in> set (slot_constraints (get_pending_jobs_data now) ldata)"
    using assms(2,3) by (force simp: slot_constraints_def time_slots_def)
  with feas have "constraint_ok val \<lparr>lhs = ?e, sense = LE, rhs = 1\<rparr>"
    by (auto simp: feasible_def production_schedule_problem_def list_all_iff)
  then show ?thesis
    by (simp add: constraint_ok_def eval_expr_def get_pending_jobs_data_def)
qed

lemma feasible_schedule_capacity:
  assumes feas: "feasible (production_schedule_problem (get_pending_jobs_data now) ldata) val"
      and "(l, linfo) \<in> set ldata" "slot < 24"
  shows "100 * val (1, l, slot) + 150 * val (2, l, slot) + 75 * val (3, l, slot)
           \<le> of_int (sl_capacity_per_hour linfo)"
proof -
  let ?e = "[(of_int (quantity jinfo) :: rat, (j, l, slot)).
              (j, jinfo) \<leftarrow> get_pending_jobs_data now]"
  have "\<lparr>lhs = ?e, sense = LE, rhs = of_int (sl_capacity_per_hour linfo)\<rparr>
          \<in> set (capacity_constraints (get_pending_jobs_data now) ldata)"
    using assms(2,3) by (force simp: capacity_constraints_def time_slots_def)
  with feas
  have "constraint_ok val \<lparr>lhs = ?e, sense = LE, rhs = of_int (sl_capacity_per_hour linfo)\<rparr>"
    by (auto simp: feasible_def production_schedule_problem_def list_all_iff)
  then show ?thesis
    by (simp add: constraint_ok_def eval_expr_def get_pending_jobs_data_def)
qed

lemma job_hits_D:
  assumes "(l, linfo, slot) \<in> set (job_hits val ldata j)"
  shows "(l, linfo) \<in> set ldata \<and> slot < 24 \<and> val (j, l, slot) = 1"
  using assms
  by (auto simp: job_hits_def time_slots_def find_Some_iff find_Some_iff2
      split: option.splits)

lemma job_hits_nonempty:
  assumes "(l, linfo) \<in> set ldata" "slot < 24" "val (j, l, slot) = 1"
  shows "job_hits val ldata j \<noteq> []"
proof -
  from assms(2,3) have "find (\<lambda>slot. val (j, l, slot) = 1) time_slots \<noteq> None"
    by (auto simp: find_None_iff time_slots_def)
  with assms(1) show ?thesis
    by (force simp: job_hits_def split: option.splits)
qed

text \<open>
  On a feasible point \<^verbatim>\<open>_extract_schedule_results\<close> finds a hit for each of the three
  pending jobs, and writes one entry per job.
\<close>

lemma extract_schedule_feasible:
  assumes feas: "feasible (production_schedule_problem (get_pending_jobs_data now) ldata) val"
  shows "\<exists>e1 e2 e3.
           extract_schedule_results val (get_pending_jobs_data now) ldata now =
             [(1, e1), (2, e2), (3, e3)] \<and>
           (assigned_line e1, sched_line_info e1) \<in> set ldata \<and> assigned_slot e1 < 24 \<and>
           val (1, assigned_line e1, assigned_slot e1) = 1 \<and> quantity (sched_job_info e1) = 100 \<and>
           (assigned_line e2, sched_line_info e2) \<in> set ldata \<and> assigned_slot e2 < 24 \<and>
           val (2, assigned_line e2, assigned_slot e2) = 1 \<and> quantity (sched_job_info e2) = 150 \<and>
           (assigned_line e3, sched_line_info e3) \<in> set ldata \<and> assigned_slot e3 < 24 \<and>
           val (3, assigned_line e3, assigned_slot e3) = 1 \<and> quantity (sched_job_info e3) = 75"
proof -
  have hit: "\<exists>l linfo slot. last (job_hits val ldata j) = (l, linfo, slot) \<and>
               job_hits val ldata j \<noteq> [] \<and>
               (l, linfo) \<in> set ldata \<and> slot < 24 \<and> val (j, l, slot) = 1"
    if "j \<in> fst ` set (get_pending_jobs_data now)" for j
  proof -
    from feasible_schedule_assigned[OF feas that]
    obtain l slot where "l \<in> fst ` set ldata" "slot < 24" "val (j, l, slot) = 1" by blast
    then have ne: "job_hits val ldata j \<noteq> []"
      using job_hits_nonempty by fastforce
    then have "last (job_hits val ldata j) \<in> set (job_hits val ldata j)" by simp
    then show ?thesis using job_hits_D[of _ _ _ val ldata j] ne
      by (metis prod_cases3)
  qed
  from hit[of 1] obtain l1 i1 s1 where
    h1: "last (job_hits val ldata 1) = (l1, i1, s1)" "job_hits val ldata 1 \<noteq> []"
        "(l1, i1) \<in> set ldata" "s1 < 24" "val (1, l1, s1) = 1"
    by (auto simp: get_pending_jobs_data_def)
  from hit[of 2] obtain l2 i2 s2 where
    h2: "last (job_hits val ldata 2) = (l2, i2, s2)" "job_hits val ldata 2 \<noteq> []"
        "(l2, i2) \<in> set ldata" "s2 < 24" "val (2, l2, s2) = 1"
    by (auto simp: get_pending_jobs_data_def)
  from hit[of 3] obtain l3 i3 s3 where
    h3: "last (job_hits val ldata 3) = (l3, i3, s3)" "job_hits val ldata 3 \<noteq> []"
        "(l3, i3) \<in> set ldata" "s3 < 24" "val (3, l3, s3) = 1"
    by (auto simp: get_pending_jobs_data_def)
  obtain a1 b1 where c1: "job_hits val ldata 1 = a1 # b1" using h1(2) by (cases "job_hits val ldata 1") auto
  obtain a2 b2 where c2: "job_hits val ldata 2 = a2 # b2" using h2(2) by (cases "job_hits val ldata 2") auto
  obtain a3 b3 where c3: "job_hits val ldata 3 = a3 # b3" using h3(2) by (cases "job_hits val ldata 3") auto
  have l1: "last (a1 # b1) = (l1, i1, s1)" using h1(1) c1 by simp
  have l2: "last (a2 # b2) = (l2, i2, s2)" using h2(1) c2 by simp
  have l3: "last (a3 # b3) = (l3, i3, s3)" using h3(1) c3 by simp
  have "extract_schedule_results val (get_pending_jobs_data now) ldata now =
     [(1, \<lparr>assigned_line = l1, assigned_slot = s1,
            sched_job_info = \<lparr>quantity = 100, priority = 1, due_date = now + hours 8\<rparr>,
            sched_line_info = i1, scheduled_time = now + hours (int s1)\<rparr>),
      (2, \<lparr>assigned_line = l2, assigned_slot = s2,
            sched_job_info = \<lparr>quantity = 150, priority = 2, due_date = now + hours 12\<rparr>,
            sched_line_info = i2, scheduled_time = now + hours (int s2)\<rparr>),
      (3, \<lparr>assigned_line = l3, assigned_slot = s3,
            sched_job_info = \<lparr>quantity = 75, priority = 1, due_date = now + hours 6\<rparr>,
            sched_line_info = i3, scheduled_time = now + hours (int s3)\<rparr>)]"
    unfolding extract_schedule_results_def get_pending_jobs_data_def
    by (simp add: c1 c2 c3 l1 l2 l3 del: last.simps)
  with h1 h2 h3 show ?thesis by simp
qed

subsection \<open>The schedule of a successful run\<close>

lemma example_schedule_feasible:
  "feasible (current_schedule_problem (example_db 100) 0) (value_of (schedule_solver p))"
proof -
  have "feasible (current_schedule_problem (example_db 100) 0)
          (\<lambda>v. if v = (1, 1, 0) \<or> v = (3, 1, 1) \<or> v = (2, 1, 2) then 1 else 0)"
    by code_simp
  then show ?thesis by (simp add: schedule_solver_def)
qed

lemma example_solved_schedule:
  "solved_schedule schedule_solver (example_db 100) 0 = example_schedule"
proof -
  have "extract_schedule_results
          (\<lambda>v. if v = (1, 1, 0) \<or> v = (3, 1, 1) \<or> v = (2, 1, 2) then 1 else 0)
          (get_pending_jobs_data 0) (get_production_lines_data (example_db 100)) 0 =
        example_schedule"
    by code_simp
  then show ?thesis by (simp add: solved_schedule_def schedule_solver_def)
qed

lemma example_schedule_objective:
  "solved_objective schedule_solver (current_schedule_problem (example_db 100) 0) = 31"
proof -
  have "eval_expr (\<lambda>v. if v = (1, 1, 0) \<or> v = (3, 1, 1) \<or> v = (2, 1, 2) then 1 else 0)
          (objective (current_schedule_problem (example_db 100) 0)) = 31"
    by code_simp
  then show ?thesis by (simp add: solved_objective_def schedule_solver_def)
qed

text \<open>
  Claim C3. For every successful result of \<^verbatim>\<open>optimize_production_schedule\<close>: every
  pending job has exactly one entry in the schedule, which names one line and one slot;
  at most one job is assigned to any pair of line and slot; for every line of the
  snapshot and every slot the total quantity of the jobs assigned to the pair is at
  most the line's \<^verbatim>\<open>capacity_per_hour\<close>; and every entry is for a pending job, a line
  of the snapshot and one of the 24 slots. The solver is taken to return a feasible
  point when it reports an optimum.
\<close>

theorem schedule_respects_constraints:
  assumes sf: "solver_feasible slv (current_schedule_problem db now)"
      and ret: "returned (optimize_production_schedule slv fl db now) =
                  Inr (Schedule_success obj sched)"
  shows "(j \<in> fst ` set (get_pending_jobs_data now) \<longrightarrow>
            length (entries_of_job sched j) = 1) \<and>
         length (assigned_jobs sched l slot) \<le> 1 \<and>
         ((l, linfo) \<in> set (get_production_lines_data db) \<longrightarrow>
            slot_quantity sched l slot \<le> sl_capacity_per_hour linfo) \<and>
         list_all (\<lambda>(j, e). j \<in> fst ` set (get_pending_jobs_data now) \<and>
                     assigned_line e \<in> fst ` set (get_production_lines_data db) \<and>
                     assigned_slot e < 24) sched"
proof -
  let ?jdata = "get_pending_jobs_data now" and ?ldata = "get_production_lines_data db"
  let ?val = "value_of (slv (current_schedule_problem db now))"
  from schedule_success_D[OF ret] sf
  have feas: "feasible (production_schedule_problem ?jdata ?ldata) ?val"
    and sched: "sched = extract_schedule_results ?val ?jdata ?ldata now"
    by (simp_all add: solver_feasible_def current_schedule_problem_def solved_schedule_def)
  from extract_schedule_feasible[OF feas] sched
  obtain e1 e2 e3 where
    s: "sched = [(1, e1), (2, e2), (3, e3)]" and
    in1: "(assigned_line e1, sched_line_info e1) \<in> set ?ldata" and t1: "assigned_slot e1 < 24" and
    v1: "?val (1, assigned_line e1, assigned_slot e1) = 1" and q1: "quantity (sched_job_info e1) = 100" and
    in2: "(assigned_line e2, sched_line_info e2) \<in> set ?ldata" and t2: "assigned_slot e2 < 24" and
    v2: "?val (2, assigned_line e2, assigned_slot e2) = 1" and q2: "quantity (sched_job_info e2) = 150" and
    in3: "(assigned_line e3, sched_line_info e3) \<in> set ?ldata" and t3: "assigned_slot e3 < 24" and
    v3: "?val (3, assigned_line e3, assigned_slot e3) = 1" and q3: "quantity (sched_job_info e3) = 75"
    by auto
  have k1: "assigned_line e1 \<in> fst ` set ?ldata"
    and k2: "assigned_line e2 \<in> fst ` set ?ldata"
    and k3: "assigned_line e3 \<in> fst ` set ?ldata"
    using in1 in2 in3 by force+
  have jobs: "fst ` set ?jdata = {1, 2, 3}"
    by (simp add: get_pending_jobs_data_def)
  have nonneg: "0 \<le> ?val (j', l', s')"
    if "j' \<in> {1, 2, 3}" "l' \<in> fst ` set ?ldata" "s' < 24" for j' l' s'
    using feasible_schedule_binary[OF feas _ that(2,3), of j'] that(1) jobs by auto
  have one: "?val (1, l', s') + ?val (2, l', s') + ?val (3, l', s') \<le> 1"
    if "l' \<in> fst ` set ?ldata" "s' < 24" for l' s'
    by (rule feasible_schedule_slot[OF feas that])
  have cap: "100 * ?val (1, l', s') + 150 * ?val (2, l', s') + 75 * ?val (3, l', s')
               \<le> of_int (sl_capacity_per_hour i')"
    if "(l', i') \<in> set ?ldata" "s' < 24" for l' i' s'
    by (rule feasible_schedule_capacity[OF feas that])
  have d12: "\<not> (assigned_line e1 = assigned_line e2 \<and> assigned_slot e1 = assigned_slot e2)"
  proof
    assume eq: "assigned_line e1 = assigned_line e2 \<and> assigned_slot e1 = assigned_slot e2"
    from one[OF k2 t2] nonneg[of 3, OF _ k2 t2] v1 v2 eq show False by simp
  qed
  have d13: "\<not> (assigned_line e1 = assigned_line e3 \<and> assigned_slot e1 = assigned_slot e3)"
  proof
    assume eq: "assigned_line e1 = assigned_line e3 \<and> assigned_slot e1 = assigned_slot e3"
    from one[OF k3 t3] nonneg[of 2, OF _ k3 t3] v1 v3 eq show False by simp
  qed
  have d23: "\<not> (assigned_line e2 = assigned_line e3 \<and> assigned_slot e2 = assigned_slot e3)"
  proof
    assume eq: "assigned_line e2 = assigned_line e3 \<and> assigned_slot e2 = assigned_slot e3"
    from one[OF k3 t3] nonneg[of 1, OF _ k3 t3] v2 v3 eq show False by simp
  qed
  have c1: "length (entries_of_job sched j) = 1" if "j \<in> fst ` set ?jdata"
    using that by (auto simp: jobs s entries_of_job_def)
  have c2: "length (assigned_jobs sched l slot) \<le> 1"
    using d12 d13 d23 by (auto simp: s assigned_jobs_def)
  have c3: "slot_quantity sched l slot \<le> sl_capacity_per_hour linfo"
    if lin: "(l, linfo) \<in> set ?ldata"
  proof -
    have kl: "l \<in> fst ` set ?ldata" using lin by force
    have "(0::rat) \<le> of_int (sl_capacity_per_hour linfo)"
      using cap[OF lin, of 0] nonneg[of 1 l 0, OF _ kl] nonneg[of 2 l 0, OF _ kl]
        nonneg[of 3 l 0, OF _ kl] by simp
    then have m0: "0 \<le> sl_capacity_per_hour linfo" by simp
    have m1: "100 \<le> sl_capacity_per_hour linfo"
      if "assigned_line e1 = l \<and> assigned_slot e1 = slot"
    proof -
      from that t1 have ts: "slot < 24" by simp
      have "(100::rat) \<le> of_int (sl_capacity_per_hour linfo)"
        using cap[OF lin ts] nonneg[of 2 l slot, OF _ kl ts] nonneg[of 3 l slot, OF _ kl ts]
          v1 that by simp
      then show ?thesis by linarith
    qed
    have m2: "150 \<le> sl_capacity_per_hour linfo"
      if "assigned_line e2 = l \<and> assigned_slot e2 = slot"
    proof -
      from that t2 have ts: "slot < 24" by simp
      have "(150::rat) \<le> of_int (sl_capacity_per_hour linfo)"
        using cap[OF lin ts] nonneg[of 1 l slot, OF _ kl ts] nonneg[of 3 l slot, OF _ kl ts]
          v2 that by simp
      then show ?thesis by linarith
    qed
    have m3: "75 \<le> sl_capacity_per_hour linfo"
      if "assigned_line e3 = l \<and> assigned_slot e3 = slot"
    proof -
      from that t3 have ts: "slot < 24" by simp
      have "(75::rat) \<le> of_int (sl_capacity_per_hour linfo)"
        using cap[OF lin ts] nonneg[of 1 l slot, OF _ kl ts] nonneg[of 2 l slot, OF _ kl ts]
          v3 that by simp
      then show ?thesis by linarith
    qed
    show ?thesis
      using d12 d13 d23 m0 m1 m2 m3
      by (auto simp: s slot_quantity_def assigned_jobs_def q1 q2 q3)
  qed
  have c4: "list_all (\<lambda>(j, e). j \<in> fst ` set ?jdata \<and> assigned_line e \<in> fst ` set ?ldata \<and>
                        assigned_slot e < 24) sched"
    using k1 k2 k3 t1 t2 t3 by (simp add: s jobs)
  from c1 c2 c3 c4 show ?thesis by blast
qed

text \<open>
  Witness for C3: on the example the solver puts job 1 in slot 0, job 3 in slot 1 and
  job 2 in slot 2 of line 1, whose hourly capacity is 200.
\<close>

theorem schedule_respects_constraints_witness:
  "solver_feasible schedule_solver (current_schedule_problem (example_db 100) 0) \<and>
   returned (optimize_production_schedule schedule_solver no_faults (example_db 100) 0) =
     Inr (Schedule_success 31 example_schedule) \<and>
   2 \<in> fst ` set (get_pending_jobs_data 0) \<and>
   (1, example_schedule_line) \<in> set (get_production_lines_data (example_db 100)) \<and>
   length (entries_of_job example_schedule 2) = 1 \<and>
   length (assigned_jobs example_schedule 1 2) \<le> 1 \<and>
   slot_quantity example_schedule 1 2 = 150 \<and>
   slot_quantity example_schedule 1 2 \<le> sl_capacity_per_hour example_schedule_line"
proof -
  have h1: "solver_feasible schedule_solver (current_schedule_problem (example_db 100) 0)"
    using example_schedule_feasible by (simp add: solver_feasible_def)
  have h2: "returned (optimize_production_schedule schedule_solver no_faults (example_db 100) 0)
              = Inr (Schedule_success 31 example_schedule)"
    using example_solved_schedule example_schedule_objective
    by (simp add: optimize_production_schedule_def Let_def returned_exit no_faults_def
        example_lines_data get_pending_jobs_data_def schedule_solver_def
        solved_schedule_def solved_objective_def current_schedule_problem_def)
  have h3: "2 \<in> fst ` set (get_pending_jobs_data 0)"
    by (simp add: get_pending_jobs_data_def)
  have h4: "(1, example_schedule_line) \<in> set (get_production_lines_data (example_db 100))"
    by (simp add: example_lines_data example_schedule_line_def)
  have h5: "slot_quantity example_schedule 1 2 = 150"
    by (simp add: slot_quantity_def assigned_jobs_def example_schedule_def)
  from schedule_respects_constraints[OF h1 h2, of 2 1 2 example_schedule_line] h1 h2 h3 h4 h5
  show ?thesis by simp
qed

end
